theory Spec2Isabelle
  imports Complex_Main "HOL-Library.Multiset" "HOL-Library.Log_Nat"
begin

section \<open>Shared schema\<close>

text \<open>
  The entity types of the shared schema. JavaScript numbers that the schema declares
  \<open>int()\<close> and the millisecond timestamps of \<open>Date.now()\<close> are \<open>int\<close>. The
  remaining numbers (rewards, payment amounts, statistics) are finite doubles, each
  represented by the \<open>real\<close> number it denotes; \<open>Infinity\<close> and \<open>NaN\<close> have no
  counterpart. The statistics are summed exactly; the product and the quotient that
  payment verification computes are rounded to the nearest double (section on
  double-precision arithmetic). An optional property is an \<open>option\<close>. The fields of
  each record carry the entity's name as a prefix, since several entities share property
  names.
\<close>

datatype proofType = Tweet_link | Image | Link | Text

datatype difficulty = Easy | Medium | Hard

datatype applicationStatus = Pending | Approved | Rejected

record task =
  task_id :: string
  task_title :: string
  task_description :: string
  task_instructions :: string
  task_proofType :: proofType
  task_reward :: real
  task_difficulty :: difficulty
  task_category :: string
  task_active :: bool
  task_totalCompletions :: int
  task_maxCompletions :: "int option"
  task_createdAt :: int

text \<open>\<open>InsertTask\<close>: the task schema without \<open>id\<close>, \<open>totalCompletions\<close>, \<open>createdAt\<close>.\<close>

record insertTask =
  ins_title :: string
  ins_description :: string
  ins_instructions :: string
  ins_proofType :: proofType
  ins_reward :: real
  ins_difficulty :: difficulty
  ins_category :: string
  ins_active :: bool
  ins_maxCompletions :: "int option"

text \<open>\<open>Partial<Task>\<close>: every property may be absent. A supplied \<open>id\<close> is always
  overridden by \<open>updateTask\<close>, so it is kept only for completeness.\<close>

record partialTask =
  upd_id :: "string option"
  upd_title :: "string option"
  upd_description :: "string option"
  upd_instructions :: "string option"
  upd_proofType :: "proofType option"
  upd_reward :: "real option"
  upd_difficulty :: "difficulty option"
  upd_category :: "string option"
  upd_active :: "bool option"
  upd_totalCompletions :: "int option"
  upd_maxCompletions :: "int option"
  upd_createdAt :: "int option"

record application =
  app_id :: string
  app_taskId :: string
  app_taskTitle :: string
  app_walletAddress :: string
  app_proofType :: proofType
  app_proofContent :: string
  app_status :: applicationStatus
  app_submittedAt :: int
  app_reviewedAt :: "int option"
  app_paidAt :: "int option"
  app_txSignature :: "string option"

record insertApplication =
  ia_taskId :: string
  ia_walletAddress :: string
  ia_proofContent :: string

text \<open>\<open>Partial<Application>\<close>, as \<open>updateApplication\<close> receives it.\<close>

record partialApplication =
  au_id :: "string option"
  au_taskId :: "string option"
  au_taskTitle :: "string option"
  au_walletAddress :: "string option"
  au_proofType :: "proofType option"
  au_proofContent :: "string option"
  au_status :: "applicationStatus option"
  au_submittedAt :: "int option"
  au_reviewedAt :: "int option"
  au_paidAt :: "int option"
  au_txSignature :: "string option"

record agent =
  agent_id :: string
  agent_name :: string
  agent_walletAddress :: string
  agent_apiKey :: string
  agent_paymentTxSignature :: string
  agent_paymentAmount :: real
  agent_createdAt :: int
  agent_active :: bool
  agent_tasksCreated :: int

record registerAgent =
  ra_name :: string
  ra_wallet :: string
  ra_txSignature :: string


datatype statKey =
  TotalTasks | TotalApplications | TotalPayouts | TotalAgents | TotalCompletedTasks

text \<open>
  The constraints of the request schemas: on a body whose numbers are finite,
  \<open>safeParse\<close> succeeds exactly on these. The reward is checked by
  \<open>z.number().positive()\<close> alone, which also admits \<open>Infinity\<close> (the JSON number
  \<open>1e999\<close>); \<open>JSON.stringify\<close> stores that reward as \<open>null\<close>. Such a body is not
  an \<open>insertTask\<close> of this model.
\<close>

definition insertTaskSchema :: "insertTask \<Rightarrow> bool" where
  "insertTaskSchema b =
     (1 \<le> length (ins_title b) \<and> 1 \<le> length (ins_description b) \<and>
      1 \<le> length (ins_instructions b) \<and> 0 < ins_reward b \<and>
      1 \<le> length (ins_category b) \<and>
      (case ins_maxCompletions b of None \<Rightarrow> True | Some m \<Rightarrow> 0 < m))"

definition insertApplicationSchema :: "insertApplication \<Rightarrow> bool" where
  "insertApplicationSchema b =
     (32 \<le> length (ia_walletAddress b) \<and> length (ia_walletAddress b) \<le> 44 \<and>
      1 \<le> length (ia_proofContent b))"

definition registerAgentSchema :: "registerAgent \<Rightarrow> bool" where
  "registerAgentSchema b =
     (1 \<le> length (ra_name b) \<and> 32 \<le> length (ra_wallet b) \<and> length (ra_wallet b) \<le> 44 \<and>
      1 \<le> length (ra_txSignature b))"

section \<open>Storage\<close>

text \<open>
  The key-value store, one component per key family: \<open>task:{id}\<close>,
  \<open>application:{id}\<close>, \<open>agent:{id}\<close>, \<open>agent:apikey:{key}\<close>, \<open>agent:wallet:{wallet}\<close>,
  the hash \<open>stats\<close> (a missing field reads as 0), and the index sets. A set is kept as
  the duplicate-free list of its members in the order \<open>smembers\<close> enumerates them. A
  record stored as JSON is read back as the same value.
\<close>

record store =
  task_rec :: "string \<Rightarrow> task option"
  all_tasks :: "string list"
  active_tasks :: "string list"
  application_rec :: "string \<Rightarrow> application option"
  all_applications :: "string list"
  pending_applications :: "string list"
  task_applications :: "string \<Rightarrow> string list"
  agent_rec :: "string \<Rightarrow> agent option"
  agent_apikey :: "string \<Rightarrow> string option"
  agent_wallet :: "string \<Rightarrow> string option"
  all_agents :: "string list"
  stats_hash :: "statKey \<Rightarrow> real"

definition emptyStore :: store where
  "emptyStore =
     \<lparr>task_rec = (\<lambda>_. None), all_tasks = [], active_tasks = [],
      application_rec = (\<lambda>_. None), all_applications = [], pending_applications = [],
      task_applications = (\<lambda>_. []),
      agent_rec = (\<lambda>_. None), agent_apikey = (\<lambda>_. None), agent_wallet = (\<lambda>_. None),
      all_agents = [], stats_hash = (\<lambda>_. 0)\<rparr>"

definition sadd :: "string list \<Rightarrow> string \<Rightarrow> string list" where
  "sadd xs x = (if x \<in> set xs then xs else xs @ [x])"

definition srem :: "string list \<Rightarrow> string \<Rightarrow> string list" where
  "srem xs x = removeAll x xs"

definition incrementStat :: "statKey \<Rightarrow> real \<Rightarrow> store \<Rightarrow> store" where
  "incrementStat k amount s = s\<lparr>stats_hash := (stats_hash s)(k := stats_hash s k + amount)\<rparr>"


subsection \<open>Tasks\<close>

text \<open>\<open>createTask\<close>; \<open>uuid\<close> is the value of \<open>uuidv4()\<close> and \<open>now\<close> of \<open>Date.now()\<close>.\<close>

definition createTask :: "insertTask \<Rightarrow> string \<Rightarrow> int \<Rightarrow> store \<Rightarrow> task \<times> store" where
  "createTask insertTask uuid now s =
     (let t = \<lparr>task_id = uuid, task_title = ins_title insertTask,
                task_description = ins_description insertTask,
                task_instructions = ins_instructions insertTask,
                task_proofType = ins_proofType insertTask,
                task_reward = ins_reward insertTask,
                task_difficulty = ins_difficulty insertTask,
                task_category = ins_category insertTask,
                task_active = ins_active insertTask,
                task_totalCompletions = 0,
                task_maxCompletions = ins_maxCompletions insertTask,
                task_createdAt = now\<rparr>;
          s1 = s\<lparr>task_rec := (task_rec s)(uuid \<mapsto> t)\<rparr>;
          s2 = s1\<lparr>all_tasks := sadd (all_tasks s1) uuid\<rparr>;
          s3 = (if task_active t then s2\<lparr>active_tasks := sadd (active_tasks s2) uuid\<rparr> else s2)
      in (t, incrementStat TotalTasks 1 s3))"

definition getTask :: "store \<Rightarrow> string \<Rightarrow> task option" where
  "getTask s i = task_rec s i"

text \<open>The loop \<open>for (const id of ids) { const task = await this.getTask(id); if (task) tasks.push(task) }\<close>.\<close>

fun collectTasks :: "store \<Rightarrow> string list \<Rightarrow> task list" where
  "collectTasks s [] = []"
| "collectTasks s (i # ids) =
     (case getTask s i of None \<Rightarrow> collectTasks s ids | Some t \<Rightarrow> t # collectTasks s ids)"

fun collectActiveTasks :: "store \<Rightarrow> string list \<Rightarrow> task list" where
  "collectActiveTasks s [] = []"
| "collectActiveTasks s (i # ids) =
     (case getTask s i of
        None \<Rightarrow> collectActiveTasks s ids
      | Some t \<Rightarrow> if task_active t then t # collectActiveTasks s ids else collectActiveTasks s ids)"

text \<open>\<open>sort((a, b) => b.createdAt - a.createdAt)\<close>: a stable sort, newest first.\<close>

definition sortTasks :: "task list \<Rightarrow> task list" where
  "sortTasks ts = sort_key (\<lambda>t. - task_createdAt t) ts"

definition getAllTasks :: "store \<Rightarrow> task list" where
  "getAllTasks s = (if all_tasks s = [] then [] else sortTasks (collectTasks s (all_tasks s)))"

definition getActiveTasks :: "store \<Rightarrow> task list" where
  "getActiveTasks s =
     (if active_tasks s = [] then [] else sortTasks (collectActiveTasks s (active_tasks s)))"

definition orElse :: "'a option \<Rightarrow> 'a \<Rightarrow> 'a" where
  "orElse u v = (case u of None \<Rightarrow> v | Some w \<Rightarrow> w)"

text \<open>\<open>{ ...task, ...updates, id }\<close>.\<close>

definition mergeTask :: "task \<Rightarrow> partialTask \<Rightarrow> string \<Rightarrow> task" where
  "mergeTask t u i =
     \<lparr>task_id = i,
      task_title = orElse (upd_title u) (task_title t),
      task_description = orElse (upd_description u) (task_description t),
      task_instructions = orElse (upd_instructions u) (task_instructions t),
      task_proofType = orElse (upd_proofType u) (task_proofType t),
      task_reward = orElse (upd_reward u) (task_reward t),
      task_difficulty = orElse (upd_difficulty u) (task_difficulty t),
      task_category = orElse (upd_category u) (task_category t),
      task_active = orElse (upd_active u) (task_active t),
      task_totalCompletions = orElse (upd_totalCompletions u) (task_totalCompletions t),
      task_maxCompletions =
        (case upd_maxCompletions u of None \<Rightarrow> task_maxCompletions t | Some m \<Rightarrow> Some m),
      task_createdAt = orElse (upd_createdAt u) (task_createdAt t)\<rparr>"

definition updateTask :: "string \<Rightarrow> partialTask \<Rightarrow> store \<Rightarrow> task option \<times> store" where
  "updateTask i updates s =
     (case getTask s i of
        None \<Rightarrow> (None, s)
      | Some t \<Rightarrow>
          let updatedTask = mergeTask t updates i;
              s1 = s\<lparr>task_rec := (task_rec s)(i \<mapsto> updatedTask)\<rparr>;
              s2 = (case upd_active updates of
                      None \<Rightarrow> s1
                    | Some a \<Rightarrow>
                        if a then s1\<lparr>active_tasks := sadd (active_tasks s1) i\<rparr>
                        else s1\<lparr>active_tasks := srem (active_tasks s1) i\<rparr>)
          in (Some updatedTask, s2))"

definition deleteTask :: "string \<Rightarrow> store \<Rightarrow> bool \<times> store" where
  "deleteTask i s =
     (case getTask s i of
        None \<Rightarrow> (False, s)
      | Some t \<Rightarrow>
          (True, s\<lparr>task_rec := (task_rec s)(i := None),
                   all_tasks := srem (all_tasks s) i,
                   active_tasks := srem (active_tasks s) i\<rparr>))"

definition noTaskUpdates :: partialTask where
  "noTaskUpdates =
     \<lparr>upd_id = None, upd_title = None, upd_description = None, upd_instructions = None,
      upd_proofType = None, upd_reward = None, upd_difficulty = None, upd_category = None,
      upd_active = None, upd_totalCompletions = None, upd_maxCompletions = None,
      upd_createdAt = None\<rparr>"

definition incrementTaskCompletions :: "string \<Rightarrow> store \<Rightarrow> store" where
  "incrementTaskCompletions i s =
     (case getTask s i of
        None \<Rightarrow> s
      | Some t \<Rightarrow>
          incrementStat TotalCompletedTasks 1
            (snd (updateTask i
               (noTaskUpdates\<lparr>upd_totalCompletions := Some (task_totalCompletions t + 1)\<rparr>) s)))"

subsection \<open>Applications\<close>

definition createApplication ::
    "insertApplication \<Rightarrow> string \<Rightarrow> proofType \<Rightarrow> string \<Rightarrow> int \<Rightarrow> store \<Rightarrow> application \<times> store" where
  "createApplication app taskTitle proofType uuid now s =
     (let a = \<lparr>app_id = uuid, app_taskId = ia_taskId app, app_taskTitle = taskTitle,
                app_walletAddress = ia_walletAddress app, app_proofType = proofType,
                app_proofContent = ia_proofContent app, app_status = Pending,
                app_submittedAt = now, app_reviewedAt = None, app_paidAt = None,
                app_txSignature = None\<rparr>;
          s1 = s\<lparr>application_rec := (application_rec s)(uuid \<mapsto> a)\<rparr>;
          s2 = s1\<lparr>all_applications := sadd (all_applications s1) uuid\<rparr>;
          s3 = s2\<lparr>pending_applications := sadd (pending_applications s2) uuid\<rparr>;
          s4 = s3\<lparr>task_applications :=
                    (task_applications s3)
                      (ia_taskId app := sadd (task_applications s3 (ia_taskId app)) uuid)\<rparr>
      in (a, incrementStat TotalApplications 1 s4))"

definition getApplication :: "store \<Rightarrow> string \<Rightarrow> application option" where
  "getApplication s i = application_rec s i"

fun collectApplications :: "store \<Rightarrow> string list \<Rightarrow> application list" where
  "collectApplications s [] = []"
| "collectApplications s (i # ids) =
     (case getApplication s i of
        None \<Rightarrow> collectApplications s ids
      | Some a \<Rightarrow> a # collectApplications s ids)"

fun collectPendingApplications :: "store \<Rightarrow> string list \<Rightarrow> application list" where
  "collectPendingApplications s [] = []"
| "collectPendingApplications s (i # ids) =
     (case getApplication s i of
        None \<Rightarrow> collectPendingApplications s ids
      | Some a \<Rightarrow>
          if app_status a = Pending then a # collectPendingApplications s ids
          else collectPendingApplications s ids)"

definition sortApplications :: "application list \<Rightarrow> application list" where
  "sortApplications as = sort_key (\<lambda>a. - app_submittedAt a) as"

definition getAllApplications :: "store \<Rightarrow> application list" where
  "getAllApplications s =
     (if all_applications s = [] then []
      else sortApplications (collectApplications s (all_applications s)))"

definition getPendingApplications :: "store \<Rightarrow> application list" where
  "getPendingApplications s =
     (if pending_applications s = [] then []
      else sortApplications (collectPendingApplications s (pending_applications s)))"

definition getApplicationsByTask :: "store \<Rightarrow> string \<Rightarrow> application list" where
  "getApplicationsByTask s taskId =
     (if task_applications s taskId = [] then []
      else sortApplications (collectApplications s (task_applications s taskId)))"

text \<open>\<open>{ ...app, ...updates, id }\<close>.\<close>

definition mergeApplication :: "application \<Rightarrow> partialApplication \<Rightarrow> string \<Rightarrow> application" where
  "mergeApplication a u i =
     \<lparr>app_id = i,
      app_taskId = orElse (au_taskId u) (app_taskId a),
      app_taskTitle = orElse (au_taskTitle u) (app_taskTitle a),
      app_walletAddress = orElse (au_walletAddress u) (app_walletAddress a),
      app_proofType = orElse (au_proofType u) (app_proofType a),
      app_proofContent = orElse (au_proofContent u) (app_proofContent a),
      app_status = orElse (au_status u) (app_status a),
      app_submittedAt = orElse (au_submittedAt u) (app_submittedAt a),
      app_reviewedAt = (case au_reviewedAt u of None \<Rightarrow> app_reviewedAt a | Some v \<Rightarrow> Some v),
      app_paidAt = (case au_paidAt u of None \<Rightarrow> app_paidAt a | Some v \<Rightarrow> Some v),
      app_txSignature =
        (case au_txSignature u of None \<Rightarrow> app_txSignature a | Some v \<Rightarrow> Some v)\<rparr>"

definition updateApplication ::
    "string \<Rightarrow> partialApplication \<Rightarrow> store \<Rightarrow> application option \<times> store" where
  "updateApplication i updates s =
     (case getApplication s i of
        None \<Rightarrow> (None, s)
      | Some a \<Rightarrow>
          let updatedApp = mergeApplication a updates i;
              s1 = s\<lparr>application_rec := (application_rec s)(i \<mapsto> updatedApp)\<rparr>;
              s2 = (case au_status updates of
                      None \<Rightarrow> s1
                    | Some st \<Rightarrow>
                        if st \<noteq> Pending
                        then s1\<lparr>pending_applications := srem (pending_applications s1) i\<rparr>
                        else s1)
          in (Some updatedApp, s2))"

subsection \<open>Agents\<close>

text \<open>\<open>createAgent\<close>; \<open>apiKey\<close> is the value of \<open>generateApiKey()\<close>.\<close>

definition createAgent ::
    "string \<Rightarrow> string \<Rightarrow> string \<Rightarrow> real \<Rightarrow> string \<Rightarrow> string \<Rightarrow> int \<Rightarrow> store \<Rightarrow> agent \<times> store" where
  "createAgent name walletAddress txSignature paymentAmount uuid apiKey now s =
     (let g = \<lparr>agent_id = uuid, agent_name = name, agent_walletAddress = walletAddress,
                agent_apiKey = apiKey, agent_paymentTxSignature = txSignature,
                agent_paymentAmount = paymentAmount, agent_createdAt = now,
                agent_active = True, agent_tasksCreated = 0\<rparr>;
          s1 = s\<lparr>agent_rec := (agent_rec s)(uuid \<mapsto> g)\<rparr>;
          s2 = s1\<lparr>agent_apikey := (agent_apikey s1)(apiKey \<mapsto> uuid)\<rparr>;
          s3 = s2\<lparr>agent_wallet := (agent_wallet s2)(walletAddress \<mapsto> uuid)\<rparr>;
          s4 = s3\<lparr>all_agents := sadd (all_agents s3) uuid\<rparr>
      in (g, incrementStat TotalAgents 1 s4))"

definition getAgent :: "store \<Rightarrow> string \<Rightarrow> agent option" where
  "getAgent s i = agent_rec s i"

definition getAgentByApiKey :: "store \<Rightarrow> string \<Rightarrow> agent option" where
  "getAgentByApiKey s apiKey =
     (case agent_apikey s apiKey of None \<Rightarrow> None | Some agentId \<Rightarrow> getAgent s agentId)"

definition getAgentByWallet :: "store \<Rightarrow> string \<Rightarrow> agent option" where
  "getAgentByWallet s wallet =
     (case agent_wallet s wallet of None \<Rightarrow> None | Some agentId \<Rightarrow> getAgent s agentId)"

fun collectAgents :: "store \<Rightarrow> string list \<Rightarrow> agent list" where
  "collectAgents s [] = []"
| "collectAgents s (i # ids) =
     (case getAgent s i of None \<Rightarrow> collectAgents s ids | Some g \<Rightarrow> g # collectAgents s ids)"

definition getAllAgents :: "store \<Rightarrow> agent list" where
  "getAllAgents s =
     (if all_agents s = [] then []
      else sort_key (\<lambda>g. - agent_createdAt g) (collectAgents s (all_agents s)))"

definition incrementAgentTasksCreated :: "string \<Rightarrow> store \<Rightarrow> store" where
  "incrementAgentTasksCreated i s =
     (case getAgent s i of
        None \<Rightarrow> s
      | Some g \<Rightarrow>
          s\<lparr>agent_rec := (agent_rec s)(i \<mapsto> g\<lparr>agent_tasksCreated := agent_tasksCreated g + 1\<rparr>)\<rparr>)"

section \<open>Double-precision arithmetic\<close>

text \<open>
  \<open>ilog2 x\<close> is the integer \<open>k\<close> with \<open>2^k \<le> x < 2^(k+1)\<close>, for \<open>x > 0\<close>.
\<close>

definition ilog2 :: "real \<Rightarrow> int" where
  "ilog2 x = (if 1 \<le> x then bitlen \<lfloor>x\<rfloor> - 1 else - bitlen (\<lceil>1 / x\<rceil> - 1))"

text \<open>Rounding to the nearest integer, a tie going to the even one.\<close>

definition roundHalfEven :: "real \<Rightarrow> int" where
  "roundHalfEven q =
     (let f = \<lfloor>q\<rfloor>; d = q - of_int f
      in if d < 1 / 2 then f else if 1 / 2 < d then f + 1 else if even f then f else f + 1)"

text \<open>
  The IEEE 754 binary64 value nearest to \<open>x\<close> (ties to even), with 53 significant bits
  and the least exponent \<open>-1074\<close> of the subnormal numbers, and with the exponent left
  unbounded above: a result of magnitude \<open>2^1024\<close> or more stands for an overflow.
  A number literal such as \<open>0.1\<close> denotes \<open>round64 (1 / 10)\<close>.
\<close>

definition round64 :: "real \<Rightarrow> real" where
  "round64 x =
     (if x = 0 then 0
      else let a = \<bar>x\<bar>; e = max (ilog2 a - 52) (- 1074);
               r = of_int (roundHalfEven (a / 2 powi e)) * 2 powi e
           in if 0 < x then r else - r)"

text \<open>
  The value of \<open>a >= x * y\<close> on finite doubles: the product is rounded; beyond the
  largest double it is \<open>Infinity\<close>, which no finite \<open>a\<close> reaches, or \<open>-Infinity\<close>, which
  every finite \<open>a\<close> reaches.
\<close>

definition geProduct :: "real \<Rightarrow> real \<Rightarrow> real \<Rightarrow> bool" where
  "geProduct a x y =
     (let p = round64 (x * y)
      in if 2 ^ 1024 \<le> p then False else if p \<le> - (2 ^ 1024) then True else p \<le> a)"

section \<open>Payment gateway\<close>

text \<open>
  \<open>sendPayment\<close> returns \<open>{ success: true, signature }\<close> or, from its \<open>catch\<close>,
  \<open>{ success: false, error }\<close>. Which of the two is decided by the network; the handler
  below receives the outcome of the call it makes.
\<close>

datatype paymentResult = PaymentSent string | PaymentFailed string

fun pay_success :: "paymentResult \<Rightarrow> bool" where
  "pay_success (PaymentSent sg) = True"
| "pay_success (PaymentFailed e) = False"

fun pay_signature :: "paymentResult \<Rightarrow> string option" where
  "pay_signature (PaymentSent sg) = Some sg"
| "pay_signature (PaymentFailed e) = None"

record nativeTransfer =
  fromUserAccount :: string
  toUserAccount :: string
  amount :: real

record heliusTransaction =
  signature :: string
  timestamp :: int
  transactionError :: "string option"
  nativeTransfers :: "nativeTransfer list option"

record transferVerification =
  valid :: bool
  verified_amount :: "real option"
  error :: "string option"

text \<open>
  What the request to the transaction API gives: an exception anywhere in the \<open>try\<close>
  block, a response that is not \<open>ok\<close>, or the parsed array (an entry may be \<open>null\<close>).
\<close>

datatype fetchResult =
    FetchThrows
  | ResponseNotOk
  | ResponseJson "heliusTransaction option list"

definition REGISTRATION_WALLET :: string where
  "REGISTRATION_WALLET = ''CKpRpJ2JTi7LuvoMRp4wKdzZbW6gZHhY612Rz5fLwpJ8''"

text \<open>\<open>const REGISTRATION_FEE = 0.1\<close>.\<close>

definition REGISTRATION_FEE :: real where
  "REGISTRATION_FEE = round64 (1 / 10)"

text \<open>
  The loop over \<open>tx.nativeTransfers || []\<close>, returning at the first match. The test is
  \<open>transfer.amount >= minAmount * 1e9\<close> and the amount returned is
  \<open>transfer.amount / 1e9\<close>, both in double precision.
\<close>

fun checkTransfers :: "nativeTransfer list \<Rightarrow> string \<Rightarrow> string \<Rightarrow> real \<Rightarrow> transferVerification" where
  "checkTransfers [] fromWallet toWallet minAmount =
     \<lparr>valid = False, verified_amount = None,
      error = Some ''No matching transfer found in transaction''\<rparr>"
| "checkTransfers (transfer # rest) fromWallet toWallet minAmount =
     (if fromUserAccount transfer = fromWallet \<and> toUserAccount transfer = toWallet \<and>
         geProduct (amount transfer) minAmount (10 ^ 9)
      then \<lparr>valid = True, verified_amount = Some (round64 (amount transfer / 10 ^ 9)),
            error = None\<rparr>
      else checkTransfers rest fromWallet toWallet minAmount)"

text \<open>A \<open>transactionError\<close> counts when it is truthy: present and not the empty string.\<close>

definition truthy :: "string option \<Rightarrow> bool" where
  "truthy v = (case v of None \<Rightarrow> False | Some x \<Rightarrow> x \<noteq> [])"

text \<open>\<open>verifyTransfer\<close>; the first argument is the outcome of the request made for
  \<open>txSignature\<close>.\<close>

definition verifyTransfer ::
    "fetchResult \<Rightarrow> string \<Rightarrow> string \<Rightarrow> string \<Rightarrow> real \<Rightarrow> transferVerification" where
  "verifyTransfer response txSignature fromWallet toWallet minAmount =
     (case response of
        FetchThrows \<Rightarrow>
          \<lparr>valid = False, verified_amount = None, error = Some ''Failed to verify transaction''\<rparr>
      | ResponseNotOk \<Rightarrow>
          \<lparr>valid = False, verified_amount = None,
           error = Some ''Failed to fetch transaction from Helius''\<rparr>
      | ResponseJson transactions \<Rightarrow>
          (case transactions of
             [] \<Rightarrow> \<lparr>valid = False, verified_amount = None, error = Some ''Transaction not found''\<rparr>
           | None # _ \<Rightarrow>
               \<lparr>valid = False, verified_amount = None, error = Some ''Transaction not found''\<rparr>
           | Some tx # _ \<Rightarrow>
               if truthy (transactionError tx)
               then \<lparr>valid = False, verified_amount = None,
                     error = Some ''Transaction failed on chain''\<rparr>
               else checkTransfers
                      (case nativeTransfers tx of None \<Rightarrow> [] | Some trs \<Rightarrow> trs)
                      fromWallet toWallet minAmount))"

definition verifyRegistrationPayment :: "fetchResult \<Rightarrow> string \<Rightarrow> string \<Rightarrow> transferVerification" where
  "verifyRegistrationPayment response txSignature fromWallet =
     verifyTransfer response txSignature fromWallet REGISTRATION_WALLET REGISTRATION_FEE"

section \<open>Request handlers\<close>

text \<open>
  A handler maps the store to a response and the store it leaves, together with the
  calls it made on the payment gateway. An error response is \<open>Inl (status, message)\<close>.
  \<open>isValidWalletAddress\<close> (the address-format check of the blockchain library) is the
  parameter \<open>V\<close>. The admin routes are modelled from the point where \<open>adminAuth\<close> has
  passed the request on; the \<open>GET\<close> routes and the upload route write nothing to the
  store.
\<close>

type_synonym 'a response = "(nat \<times> string) + 'a"

datatype gatewayCall =
    SendPayment string real
  | VerifyTransfer string string string real

definition slotsFull :: "task \<Rightarrow> bool" where
  "slotsFull t =
     (case task_maxCompletions t of
        None \<Rightarrow> False
      | Some m \<Rightarrow> m \<noteq> 0 \<and> task_totalCompletions t \<ge> m)"

text \<open>\<open>POST /api/applications\<close> (and the body of \<open>POST /api/agent/apply\<close>).\<close>

definition postApplications ::
    "(string \<Rightarrow> bool) \<Rightarrow> insertApplication \<Rightarrow> string \<Rightarrow> int \<Rightarrow> store \<Rightarrow>
     application response \<times> store" where
  "postApplications V body uuid now s =
     (if \<not> insertApplicationSchema body then (Inl (400, ''Invalid request''), s)
      else if \<not> V (ia_walletAddress body) then (Inl (400, ''Invalid Solana wallet address''), s)
      else case getTask s (ia_taskId body) of
             None \<Rightarrow> (Inl (404, ''Task not found''), s)
           | Some t \<Rightarrow>
               if \<not> task_active t then (Inl (400, ''Task is no longer active''), s)
               else if slotsFull t then (Inl (400, ''No slots available for this task''), s)
               else let (a, s') = createApplication body (task_title t) (task_proofType t) uuid now s
                    in (Inr a, s'))"

text \<open>The middleware \<open>agentAuth\<close>; the header may be missing.\<close>

definition agentAuth :: "store \<Rightarrow> string option \<Rightarrow> agent response" where
  "agentAuth s apiKey =
     (if \<not> truthy apiKey then Inl (401, ''Unauthorized: API key required'')
      else case getAgentByApiKey s (the apiKey) of
             None \<Rightarrow> Inl (401, ''Unauthorized: Invalid API key'')
           | Some g \<Rightarrow>
               if \<not> agent_active g then Inl (403, ''Forbidden: Agent account is inactive'')
               else Inr g)"

text \<open>\<open>POST /api/agent/register\<close>; \<open>helius\<close> is the outcome of the verification request,
  read only if the handler gets that far.\<close>

definition postAgentRegister ::
    "(string \<Rightarrow> bool) \<Rightarrow> registerAgent \<Rightarrow> fetchResult \<Rightarrow> string \<Rightarrow> string \<Rightarrow> int \<Rightarrow> store \<Rightarrow>
     agent response \<times> store \<times> gatewayCall list" where
  "postAgentRegister V body helius uuid apiKey now s =
     (if \<not> registerAgentSchema body then (Inl (400, ''Invalid request''), s, [])
      else if \<not> V (ra_wallet body) then (Inl (400, ''Invalid Solana wallet address''), s, [])
      else case getAgentByWallet s (ra_wallet body) of
             Some existingAgent \<Rightarrow> (Inl (400, ''Wallet already registered as an agent''), s, [])
           | None \<Rightarrow>
               let verification = verifyRegistrationPayment helius (ra_txSignature body) (ra_wallet body);
                   calls = [VerifyTransfer (ra_txSignature body) (ra_wallet body)
                              REGISTRATION_WALLET REGISTRATION_FEE]
               in if \<not> valid verification then (Inl (400, ''Payment verification failed''), s, calls)
                  else let (g, s') = createAgent (ra_name body) (ra_wallet body) (ra_txSignature body)
                                       (the (verified_amount verification)) uuid apiKey now s
                       in (Inr g, s', calls))"

text \<open>\<open>POST /api/agent/tasks\<close>.\<close>

definition postAgentTasks ::
    "string option \<Rightarrow> insertTask \<Rightarrow> string \<Rightarrow> int \<Rightarrow> store \<Rightarrow> task response \<times> store" where
  "postAgentTasks apiKey body uuid now s =
     (case agentAuth s apiKey of
        Inl e \<Rightarrow> (Inl e, s)
      | Inr g \<Rightarrow>
          if \<not> insertTaskSchema body then (Inl (400, ''Invalid request''), s)
          else let (t, s') = createTask body uuid now s
               in (Inr t, incrementAgentTasksCreated (agent_id g) s'))"

text \<open>\<open>POST /api/agent/apply\<close>.\<close>

definition postAgentApply ::
    "(string \<Rightarrow> bool) \<Rightarrow> string option \<Rightarrow> insertApplication \<Rightarrow> string \<Rightarrow> int \<Rightarrow> store \<Rightarrow>
     application response \<times> store" where
  "postAgentApply V apiKey body uuid now s =
     (case agentAuth s apiKey of
        Inl e \<Rightarrow> (Inl e, s)
      | Inr g \<Rightarrow> postApplications V body uuid now s)"

text \<open>\<open>POST /api/admin/tasks\<close>.\<close>

definition postAdminTasks :: "insertTask \<Rightarrow> string \<Rightarrow> int \<Rightarrow> store \<Rightarrow> task response \<times> store" where
  "postAdminTasks body uuid now s =
     (if \<not> insertTaskSchema body then (Inl (400, ''Invalid request''), s)
      else let (t, s') = createTask body uuid now s in (Inr t, s'))"

text \<open>\<open>PUT /api/admin/tasks/:id\<close>: the body goes to \<open>updateTask\<close> as it is.\<close>

definition putAdminTask :: "string \<Rightarrow> partialTask \<Rightarrow> store \<Rightarrow> task option response \<times> store" where
  "putAdminTask taskId body s =
     (case getTask s taskId of
        None \<Rightarrow> (Inl (404, ''Task not found''), s)
      | Some t \<Rightarrow> let (updatedTask, s') = updateTask taskId body s in (Inr updatedTask, s'))"

text \<open>\<open>DELETE /api/admin/tasks/:id\<close>.\<close>

definition deleteAdminTask :: "string \<Rightarrow> store \<Rightarrow> unit response \<times> store" where
  "deleteAdminTask taskId s =
     (let (deleted, s') = deleteTask taskId s
      in if \<not> deleted then (Inl (404, ''Task not found''), s') else (Inr (), s'))"

definition noApplicationUpdates :: partialApplication where
  "noApplicationUpdates =
     \<lparr>au_id = None, au_taskId = None, au_taskTitle = None, au_walletAddress = None,
      au_proofType = None, au_proofContent = None, au_status = None, au_submittedAt = None,
      au_reviewedAt = None, au_paidAt = None, au_txSignature = None\<rparr>"

text \<open>
  \<open>PUT /api/admin/applications/:id\<close>. \<open>status\<close> is the \<open>status\<close> property of the body
  when it is a string; \<open>payment\<close> is the outcome of \<open>sendPayment\<close>, read only if the
  handler calls it; \<open>now\<close> and \<open>now'\<close> are the two readings of \<open>Date.now()\<close>.
\<close>

definition putAdminApplication ::
    "string \<Rightarrow> string option \<Rightarrow> paymentResult \<Rightarrow> int \<Rightarrow> int \<Rightarrow> store \<Rightarrow>
     application option response \<times> store \<times> gatewayCall list" where
  "putAdminApplication applicationId status payment now now' s =
     (if \<not> truthy status \<or> the status \<notin> set [''approved'', ''rejected'']
      then (Inl (400, ''Invalid status. Must be \"approved\" or \"rejected\"''), s, [])
      else case getApplication s applicationId of
        None \<Rightarrow> (Inl (404, ''Application not found''), s, [])
      | Some application \<Rightarrow>
          if app_status application \<noteq> Pending
          then (Inl (400, ''Application has already been reviewed''), s, [])
          else
            let updates = noApplicationUpdates
                  \<lparr>au_status := Some (if the status = ''approved'' then Approved else Rejected),
                   au_reviewedAt := Some now\<rparr>
            in if the status = ''approved''
               then (case getTask s (app_taskId application) of
                       None \<Rightarrow> (Inl (404, ''Associated task not found''), s, [])
                     | Some t \<Rightarrow>
                         let calls = [SendPayment (app_walletAddress application) (task_reward t)]
                         in if \<not> pay_success payment
                            then (Inl (500, ''Failed to send payment''), s, calls)
                            else
                              let updates' = updates\<lparr>au_txSignature := pay_signature payment,
                                                       au_paidAt := Some now'\<rparr>;
                                  s1 = incrementTaskCompletions (app_taskId application) s;
                                  s2 = incrementStat TotalPayouts (task_reward t) s1;
                                  (updatedApplication, s3) = updateApplication applicationId updates' s2
                              in (Inr updatedApplication, s3, calls))
               else let (updatedApplication, s1) = updateApplication applicationId updates s
                    in (Inr updatedApplication, s1, []))"

section \<open>Requests and sequential execution\<close>

text \<open>
  The requests that write to the store, each with the values the environment supplies
  while it is handled (generated ids and keys, clock readings, gateway outcomes).
\<close>

datatype request =
    PostApplications insertApplication string int
  | PostAgentRegister registerAgent fetchResult string string int
  | PostAgentTasks "string option" insertTask string int
  | PostAgentApply "string option" insertApplication string int
  | PostAdminTasks insertTask string int
  | PutAdminTask string partialTask
  | DeleteAdminTask string
  | PutAdminApplication string "string option" paymentResult int int

text \<open>The store a request leaves.\<close>

fun step :: "(string \<Rightarrow> bool) \<Rightarrow> request \<Rightarrow> store \<Rightarrow> store" where
  "step V (PostApplications body uuid now) s = snd (postApplications V body uuid now s)"
| "step V (PostAgentRegister body helius uuid apiKey now) s =
     fst (snd (postAgentRegister V body helius uuid apiKey now s))"
| "step V (PostAgentTasks apiKey body uuid now) s = snd (postAgentTasks apiKey body uuid now s)"
| "step V (PostAgentApply apiKey body uuid now) s = snd (postAgentApply V apiKey body uuid now s)"
| "step V (PostAdminTasks body uuid now) s = snd (postAdminTasks body uuid now s)"
| "step V (PutAdminTask taskId body) s = snd (putAdminTask taskId body s)"
| "step V (DeleteAdminTask taskId) s = snd (deleteAdminTask taskId s)"
| "step V (PutAdminApplication applicationId status payment now now') s =
     fst (snd (putAdminApplication applicationId status payment now now' s))"

text \<open>Sequential execution of a list of requests.\<close>

fun run :: "(string \<Rightarrow> bool) \<Rightarrow> request list \<Rightarrow> store \<Rightarrow> store" where
  "run V [] s = s"
| "run V (r # rs) s = run V rs (step V r s)"

text \<open>
  The ids and keys a request generates are fresh: not in use in the store when the
  request is handled (\<open>uuidv4()\<close> and \<open>generateApiKey()\<close> do not repeat).
\<close>

fun freshRequest :: "request \<Rightarrow> store \<Rightarrow> bool" where
  "freshRequest (PostApplications body uuid now) s = (application_rec s uuid = None)"
| "freshRequest (PostAgentApply apiKey body uuid now) s = (application_rec s uuid = None)"
| "freshRequest (PostAgentTasks apiKey body uuid now) s = (task_rec s uuid = None)"
| "freshRequest (PostAdminTasks body uuid now) s = (task_rec s uuid = None)"
| "freshRequest (PostAgentRegister body helius uuid apiKey now) s =
     (agent_rec s uuid = None \<and> agent_apikey s apiKey = None)"
| "freshRequest (PutAdminTask taskId body) s = True"
| "freshRequest (DeleteAdminTask taskId) s = True"
| "freshRequest (PutAdminApplication applicationId status payment now now') s = True"

fun freshRun :: "(string \<Rightarrow> bool) \<Rightarrow> request list \<Rightarrow> store \<Rightarrow> bool" where
  "freshRun V [] s = True"
| "freshRun V (r # rs) s = (freshRequest r s \<and> freshRun V rs (step V r s))"

fun isReview :: "request \<Rightarrow> bool" where
  "isReview (PutAdminApplication applicationId status payment now now') = True"
| "isReview r = False"

fun isTaskUpdate :: "request \<Rightarrow> bool" where
  "isTaskUpdate (PutAdminTask taskId body) = True"
| "isTaskUpdate r = False"




section \<open>Predicates on records and stores\<close>

text \<open>The task that creation from \<open>body\<close> is expected to store and return.\<close>

definition expectedTask :: "insertTask \<Rightarrow> string \<Rightarrow> int \<Rightarrow> task" where
  "expectedTask body uuid now =
     \<lparr>task_id = uuid, task_title = ins_title body, task_description = ins_description body,
      task_instructions = ins_instructions body, task_proofType = ins_proofType body,
      task_reward = ins_reward body, task_difficulty = ins_difficulty body,
      task_category = ins_category body, task_active = ins_active body,
      task_totalCompletions = 0, task_maxCompletions = ins_maxCompletions body,
      task_createdAt = now\<rparr>"

text \<open>The review and payment fields of an application agree with its status.\<close>

definition applicationOk :: "application \<Rightarrow> bool" where
  "applicationOk a =
     (case app_status a of
        Pending \<Rightarrow> app_reviewedAt a = None \<and> app_paidAt a = None \<and> app_txSignature a = None
      | Approved \<Rightarrow> app_reviewedAt a \<noteq> None \<and> app_paidAt a \<noteq> None \<and> app_txSignature a \<noteq> None
      | Rejected \<Rightarrow> app_reviewedAt a \<noteq> None \<and> app_paidAt a = None \<and> app_txSignature a = None)"

definition applicationsOk :: "store \<Rightarrow> bool" where
  "applicationsOk s = (\<forall>i a. application_rec s i = Some a \<longrightarrow> applicationOk a)"

text \<open>The reward a task has after a request, given the reward \<open>v\<close> it had before.\<close>

fun rewardAfter :: "request \<Rightarrow> string \<Rightarrow> real \<Rightarrow> real" where
  "rewardAfter (PutAdminTask taskId body) i v =
     (if taskId = i then orElse (upd_reward body) v else v)"
| "rewardAfter r i v = v"

text \<open>The record \<open>incrementTaskCompletions\<close> writes for a task \<open>t\<close> stored under \<open>i\<close>.\<close>

definition completed :: "task \<Rightarrow> string \<Rightarrow> task" where
  "completed t i =
     mergeTask t (noTaskUpdates\<lparr>upd_totalCompletions := Some (task_totalCompletions t + 1)\<rparr>) i"





section \<open>Sample data\<close>

definition sampleWallet :: string where
  "sampleWallet = ''PXpVKE42sXTnAqRqbKidaTKgCrkgexFrSNQXdxppJZR''"

definition sampleTask :: task where
  "sampleTask =
     \<lparr>task_id = ''t1'', task_title = ''Share on Twitter'',
      task_description = ''Share our announcement'', task_instructions = ''Quote tweet'',
      task_proofType = Tweet_link, task_reward = 1, task_difficulty = Easy,
      task_category = ''social'', task_active = True, task_totalCompletions = 0,
      task_maxCompletions = Some 1, task_createdAt = 500\<rparr>"

definition sampleApplication :: application where
  "sampleApplication =
     \<lparr>app_id = ''a1'', app_taskId = ''t1'', app_taskTitle = ''Share on Twitter'',
      app_walletAddress = sampleWallet, app_proofType = Tweet_link,
      app_proofContent = ''https://twitter.com/user/status/1'', app_status = Pending,
      app_submittedAt = 1000, app_reviewedAt = None, app_paidAt = None,
      app_txSignature = None\<rparr>"

text \<open>A store holding one pending application whose task is gone.\<close>

definition orphanStore :: store where
  "orphanStore =
     emptyStore\<lparr>application_rec := (\<lambda>_. None)(''a1'' \<mapsto> sampleApplication),
       all_applications := [''a1''], pending_applications := [''a1'']\<rparr>"

text \<open>A store holding one task and one pending application for it.\<close>

definition pendingStore :: store where
  "pendingStore =
     orphanStore\<lparr>task_rec := (\<lambda>_. None)(''t1'' \<mapsto> sampleTask),
       all_tasks := [''t1''], active_tasks := [''t1'']\<rparr>"

definition approvedApplication :: application where
  "approvedApplication =
     sampleApplication\<lparr>app_status := Approved, app_reviewedAt := Some 2000,
       app_paidAt := Some 2001, app_txSignature := Some ''sig1''\<rparr>"

definition approvedStore :: store where
  "approvedStore =
     fst (snd (putAdminApplication ''a1'' (Some ''approved'') (PaymentSent ''sig1'') 2000 2001
       pendingStore))"

definition sampleInsertTask :: insertTask where
  "sampleInsertTask =
     \<lparr>ins_title = ''Share on Twitter'', ins_description = ''Share our announcement'',
      ins_instructions = ''Quote tweet'', ins_proofType = Tweet_link, ins_reward = 1,
      ins_difficulty = Easy, ins_category = ''social'', ins_active = True,
      ins_maxCompletions = Some 1\<rparr>"

definition reviewedApplication :: application where
  "reviewedApplication =
     sampleApplication\<lparr>app_id := ''a2'', app_status := Rejected, app_reviewedAt := Some 2000\<rparr>"

text \<open>A store whose index sets have stale members.\<close>

definition staleStore :: store where
  "staleStore =
     emptyStore\<lparr>task_rec := (\<lambda>_. None)(''t1'' \<mapsto> sampleTask,
                     ''t2'' \<mapsto> sampleTask\<lparr>task_id := ''t2'', task_active := False\<rparr>),
       all_tasks := [''t1'', ''gone'', ''t2''],
       active_tasks := [''gone'', ''t2'', ''t1''],
       application_rec := (\<lambda>_. None)(''a1'' \<mapsto> sampleApplication, ''a2'' \<mapsto> reviewedApplication),
       all_applications := [''a1'', ''lost'', ''a2''],
       pending_applications := [''a2'', ''lost'', ''a1''],
       task_applications := (\<lambda>_. [])(''t1'' := [''lost'', ''a1''])\<rparr>"

text \<open>An address-format check that accepts the sample wallet only.\<close>

definition acceptSample :: "string \<Rightarrow> bool" where
  "acceptSample w = (w = sampleWallet)"

definition sampleRegistration :: registerAgent where
  "sampleRegistration = \<lparr>ra_name = ''My AI Agent'', ra_wallet = sampleWallet, ra_txSignature = ''tx1''\<rparr>"

definition feeTransaction :: "real \<Rightarrow> heliusTransaction" where
  "feeTransaction lamports =
     \<lparr>signature = ''tx1'', timestamp = 1700000000, transactionError = None,
      nativeTransfers = Some [\<lparr>fromUserAccount = sampleWallet,
                               toUserAccount = REGISTRATION_WALLET, amount = lamports\<rparr>]\<rparr>"

definition registeredStore :: store where
  "registeredStore =
     fst (snd (postAgentRegister acceptSample sampleRegistration
       (ResponseJson [Some (feeTransaction 100000000)]) ''g1'' ''mb_key1'' 100 emptyStore))"

definition sampleSubmission :: insertApplication where
  "sampleSubmission =
     \<lparr>ia_taskId = ''t1'', ia_walletAddress = sampleWallet,
      ia_proofContent = ''https://twitter.com/user/status/1''\<rparr>"

definition submitTrace :: "request list" where
  "submitTrace =
     [PostAdminTasks sampleInsertTask ''t1'' 500,
      PostApplications sampleSubmission ''a1'' 1000,
      PostApplications sampleSubmission ''a2'' 1001]"

definition reviewTrace :: "request list" where
  "reviewTrace =
     submitTrace @
     [PutAdminApplication ''a1'' (Some ''approved'') (PaymentSent ''sig1'') 2000 2001,
      PutAdminApplication ''a2'' (Some ''rejected'') (PaymentSent ''sig2'') 3000 3001]"

definition raiseReward :: partialTask where
  "raiseReward = noTaskUpdates\<lparr>upd_reward := Some 2\<rparr>"

definition createdStore :: store where
  "createdStore = run acceptSample [PostAdminTasks sampleInsertTask ''t1'' 500] emptyStore"

definition overTrace :: "request list" where
  "overTrace =
     submitTrace @
     [PutAdminApplication ''a1'' (Some ''approved'') (PaymentSent ''sig1'') 2000 2001,
      PutAdminApplication ''a2'' (Some ''approved'') (PaymentSent ''sig2'') 3000 3001]"

definition setCompletions :: partialTask where
  "setCompletions = noTaskUpdates\<lparr>upd_totalCompletions := Some 5\<rparr>"

definition fullStore :: store where
  "fullStore =
     run acceptSample
       [PostAdminTasks sampleInsertTask ''t1'' 500,
        PostApplications sampleSubmission ''a1'' 1000,
        PutAdminApplication ''a1'' (Some ''approved'') (PaymentSent ''sig1'') 2000 2001]
       emptyStore"


section \<open>Evaluation of the sample data\<close>

lemmas sample_defs =
  sampleSubmission_def sampleInsertTask_def sampleWallet_def acceptSample_def
  sampleTask_def sampleApplication_def approvedApplication_def

lemmas handler_defs =
  postAdminTasks_def postApplications_def putAdminApplication_def putAdminTask_def
  insertTaskSchema_def insertApplicationSchema_def createTask_def createApplication_def
  updateApplication_def updateTask_def incrementTaskCompletions_def incrementStat_def
  getTask_def getApplication_def slotsFull_def truthy_def sadd_def srem_def
  mergeApplication_def mergeTask_def orElse_def noApplicationUpdates_def noTaskUpdates_def
  emptyStore_def Let_def case_prod_beta

section \<open>Frame lemmas\<close>

lemma application_rec_incrementStat: "application_rec (incrementStat k v s) = application_rec s"
  by (simp add: incrementStat_def)

lemma task_rec_incrementStat: "task_rec (incrementStat k v s) = task_rec s"
  by (simp add: incrementStat_def)

lemma application_rec_updateTask: "application_rec (snd (updateTask i u s)) = application_rec s"
  by (simp add: updateTask_def Let_def split: option.splits)

lemma application_rec_incrementTaskCompletions:
  "application_rec (incrementTaskCompletions i s) = application_rec s"
  by (simp add: incrementTaskCompletions_def application_rec_incrementStat
      application_rec_updateTask split: option.splits)

section \<open>Application review: failures commit nothing\<close>

text \<open>
  C1. When a review request approves a pending application and the referenced task is
  missing, or the payment gateway reports failure, the handler answers with an error
  (404 for the missing task, 500 for the failed payment) and leaves the store exactly as
  it was: the application record (still pending, no review or payment fields gained), every
  task record and every statistics counter are unchanged.
\<close>

theorem approval_failure_commits_nothing:
  assumes "getApplication s applicationId = Some a"
    and "app_status a = Pending"
    and "getTask s (app_taskId a) = None \<or> \<not> pay_success payment"
  shows "fst (putAdminApplication applicationId (Some ''approved'') payment now now' s) =
           Inl (if getTask s (app_taskId a) = None then (404, ''Associated task not found'')
                else (500, ''Failed to send payment'')) \<and>
         fst (snd (putAdminApplication applicationId (Some ''approved'') payment now now' s)) = s"
  using assms
  by (auto simp: putAdminApplication_def truthy_def Let_def split: option.splits)

theorem approval_failure_commits_nothing_witness:
  "getApplication orphanStore ''a1'' = Some sampleApplication \<and>
   app_status sampleApplication = Pending \<and>
   getTask orphanStore (app_taskId sampleApplication) = None \<and>
   fst (putAdminApplication ''a1'' (Some ''approved'') (PaymentSent ''sig'') 2000 2001 orphanStore) =
     Inl (404, ''Associated task not found'') \<and>
   fst (snd (putAdminApplication ''a1'' (Some ''approved'') (PaymentSent ''sig'') 2000 2001
       orphanStore)) = orphanStore \<and>
   getApplication pendingStore ''a1'' = Some sampleApplication \<and>
   getTask pendingStore (app_taskId sampleApplication) = Some sampleTask \<and>
   \<not> pay_success (PaymentFailed ''insufficient funds'') \<and>
   fst (putAdminApplication ''a1'' (Some ''approved'') (PaymentFailed ''insufficient funds'')
       2000 2001 pendingStore) = Inl (500, ''Failed to send payment'') \<and>
   fst (snd (putAdminApplication ''a1'' (Some ''approved'') (PaymentFailed ''insufficient funds'')
       2000 2001 pendingStore)) = pendingStore"
proof -
  have a: "getApplication orphanStore ''a1'' = Some sampleApplication"
    by (simp add: getApplication_def orphanStore_def emptyStore_def)
  have b: "app_status sampleApplication = Pending"
    by (simp add: sampleApplication_def)
  have c: "getTask orphanStore (app_taskId sampleApplication) = None"
    by (simp add: getTask_def orphanStore_def emptyStore_def)
  have a': "getApplication pendingStore ''a1'' = Some sampleApplication"
    by (simp add: getApplication_def pendingStore_def orphanStore_def emptyStore_def)
  have c': "getTask pendingStore (app_taskId sampleApplication) = Some sampleTask"
    by (simp add: getTask_def pendingStore_def sampleApplication_def)
  have d: "\<not> pay_success (PaymentFailed ''insufficient funds'')"
    by simp
  from approval_failure_commits_nothing [OF a b disjI1 [OF c], of "PaymentSent ''sig''" 2000 2001]
    approval_failure_commits_nothing [OF a' b disjI2 [OF d], of 2000 2001]
    a b c a' c' d
  show ?thesis by simp
qed

section \<open>Application review: a reviewed application is final\<close>

lemma application_rec_updateApplication:
  "application_rec (snd (updateApplication i u s)) i =
     (case application_rec s i of None \<Rightarrow> None | Some a \<Rightarrow> Some (mergeApplication a u i))"
  by (simp add: updateApplication_def getApplication_def Let_def split: option.splits)

lemma putAdminApplication_success_reviewed:
  assumes "putAdminApplication i st payment now now' s = (Inr r, s', calls)"
  shows "\<exists>a'. getApplication s' i = Some a' \<and> app_status a' \<noteq> Pending"
  using assms
  by (auto simp: putAdminApplication_def Let_def case_prod_beta getApplication_def
      application_rec_updateApplication application_rec_incrementStat
      application_rec_incrementTaskCompletions mergeApplication_def orElse_def
      noApplicationUpdates_def
      split: if_splits option.splits)

lemma putAdminApplication_not_pending:
  assumes "getApplication s i = Some a" and "app_status a \<noteq> Pending"
    and "st = ''approved'' \<or> st = ''rejected''"
  shows "putAdminApplication i (Some st) payment now now' s =
           (Inl (400, ''Application has already been reviewed''), s, [])"
  using assms by (auto simp: putAdminApplication_def truthy_def)

lemma pendingStore_lookup:
  "getApplication pendingStore ''a1'' = Some sampleApplication"
  "getTask pendingStore ''t1'' = Some sampleTask"
  by (simp_all add: getApplication_def getTask_def pendingStore_def orphanStore_def emptyStore_def)

lemma approve_pendingStore:
  "putAdminApplication ''a1'' (Some ''approved'') (PaymentSent ''sig1'') 2000 2001 pendingStore =
     (Inr (Some approvedApplication), approvedStore, [SendPayment sampleWallet 1])"
  unfolding approvedStore_def
  using pendingStore_lookup
  by (simp add: putAdminApplication_def truthy_def Let_def case_prod_beta
      sampleApplication_def sampleTask_def approvedApplication_def noApplicationUpdates_def
      updateApplication_def getApplication_def application_rec_incrementStat
      application_rec_incrementTaskCompletions mergeApplication_def orElse_def)

text \<open>
  C3. A review request (approve or reject) for an application that is no longer pending
  is answered with the error ``Application has already been reviewed'', leaves the store
  unchanged and makes no call on the payment gateway. In particular, after any review
  request that succeeded, a further review request for the same application id fails in
  this way, so it cannot pay a second time.
\<close>

theorem reviewed_application_is_final:
  "(getApplication s i = Some a \<and> app_status a \<noteq> Pending \<and>
      (st = ''approved'' \<or> st = ''rejected'') \<longrightarrow>
    putAdminApplication i (Some st) payment now now' s =
      (Inl (400, ''Application has already been reviewed''), s, [])) \<and>
   (putAdminApplication i st1 payment1 now1 now1' s = (Inr r, s', calls) \<and>
      (st = ''approved'' \<or> st = ''rejected'') \<longrightarrow>
    putAdminApplication i (Some st) payment now now' s' =
      (Inl (400, ''Application has already been reviewed''), s', []))"
proof (intro conjI impI)
  assume "getApplication s i = Some a \<and> app_status a \<noteq> Pending \<and>
      (st = ''approved'' \<or> st = ''rejected'')"
  then show "putAdminApplication i (Some st) payment now now' s =
      (Inl (400, ''Application has already been reviewed''), s, [])"
    using putAdminApplication_not_pending by blast
next
  assume h: "putAdminApplication i st1 payment1 now1 now1' s = (Inr r, s', calls) \<and>
      (st = ''approved'' \<or> st = ''rejected'')"
  then obtain a' where "getApplication s' i = Some a'" "app_status a' \<noteq> Pending"
    using putAdminApplication_success_reviewed by blast
  with h show "putAdminApplication i (Some st) payment now now' s' =
      (Inl (400, ''Application has already been reviewed''), s', [])"
    using putAdminApplication_not_pending by blast
qed

theorem reviewed_application_is_final_witness:
  "putAdminApplication ''a1'' (Some ''approved'') (PaymentSent ''sig1'') 2000 2001 pendingStore =
     (Inr (Some approvedApplication), approvedStore, [SendPayment sampleWallet 1]) \<and>
   getApplication approvedStore ''a1'' = Some approvedApplication \<and>
   app_status approvedApplication \<noteq> Pending \<and>
   putAdminApplication ''a1'' (Some ''approved'') (PaymentSent ''sig2'') 3000 3001 approvedStore =
     (Inl (400, ''Application has already been reviewed''), approvedStore, []) \<and>
   putAdminApplication ''a1'' (Some ''rejected'') (PaymentSent ''sig2'') 3000 3001 approvedStore =
     (Inl (400, ''Application has already been reviewed''), approvedStore, [])"
proof -
  note step1 = approve_pendingStore
  have st: "app_status approvedApplication \<noteq> Pending"
    by (simp add: approvedApplication_def)
  have look: "getApplication approvedStore ''a1'' = Some approvedApplication"
    unfolding approvedStore_def using pendingStore_lookup
    by (simp add: putAdminApplication_def truthy_def Let_def case_prod_beta
        sampleApplication_def sampleTask_def approvedApplication_def noApplicationUpdates_def
        getApplication_def application_rec_updateApplication application_rec_incrementStat
        application_rec_incrementTaskCompletions mergeApplication_def orElse_def)
  from reviewed_application_is_final [of approvedStore "''a1''" approvedApplication "''rejected''"
      "PaymentSent ''sig2''" 3000 3001]
    reviewed_application_is_final [of pendingStore "''a1''" approvedApplication "''approved''"
      "PaymentSent ''sig2''" 3000 3001 "Some ''approved''" "PaymentSent ''sig1''" 2000 2001
      "Some approvedApplication" approvedStore "[SendPayment sampleWallet 1]"]
    step1 st look
  show ?thesis by simp
qed

section \<open>Listings\<close>

lemma set_collectTasks:
  "set (collectTasks s ids) = {t. \<exists>i \<in> set ids. getTask s i = Some t}"
  by (induction ids) (auto split: option.splits)

lemma set_collectActiveTasks:
  "set (collectActiveTasks s ids) = {t. \<exists>i \<in> set ids. getTask s i = Some t \<and> task_active t}"
  by (induction ids) (auto split: option.splits)

lemma set_collectApplications:
  "set (collectApplications s ids) = {a. \<exists>i \<in> set ids. getApplication s i = Some a}"
  by (induction ids) (auto split: option.splits)

lemma set_collectPendingApplications:
  "set (collectPendingApplications s ids) =
     {a. \<exists>i \<in> set ids. getApplication s i = Some a \<and> app_status a = Pending}"
  by (induction ids) (auto split: option.splits)

lemma set_collectAgents:
  "set (collectAgents s ids) = {g. \<exists>i \<in> set ids. getAgent s i = Some g}"
  by (induction ids) (auto split: option.splits)

lemma length_collectTasks:
  "length (collectTasks s ids) = length (filter (\<lambda>i. getTask s i \<noteq> None) ids)"
  by (induction ids) (auto split: option.splits)

lemma length_collectApplications:
  "length (collectApplications s ids) = length (filter (\<lambda>i. getApplication s i \<noteq> None) ids)"
  by (induction ids) (auto split: option.splits)

lemma length_collectAgents:
  "length (collectAgents s ids) = length (filter (\<lambda>i. getAgent s i \<noteq> None) ids)"
  by (induction ids) (auto split: option.splits)

text \<open>
  C10. Every list operation returns exactly the records that exist under the ids of its
  index set: an id whose record is missing is skipped (the result has one entry per id
  with a record, never a placeholder). \<open>getActiveTasks\<close> returns only tasks with
  \<open>active = true\<close> and \<open>getPendingApplications\<close> only applications with status
  \<open>pending\<close>, whatever stale members the index sets hold.
\<close>

theorem listings_skip_missing_records:
  "set (getAllTasks s) = {t. \<exists>i \<in> set (all_tasks s). getTask s i = Some t} \<and>
   length (getAllTasks s) = length (filter (\<lambda>i. getTask s i \<noteq> None) (all_tasks s)) \<and>
   set (getActiveTasks s) =
     {t. \<exists>i \<in> set (active_tasks s). getTask s i = Some t \<and> task_active t} \<and>
   set (getAllApplications s) =
     {a. \<exists>i \<in> set (all_applications s). getApplication s i = Some a} \<and>
   length (getAllApplications s) =
     length (filter (\<lambda>i. getApplication s i \<noteq> None) (all_applications s)) \<and>
   set (getPendingApplications s) =
     {a. \<exists>i \<in> set (pending_applications s). getApplication s i = Some a \<and> app_status a = Pending} \<and>
   set (getApplicationsByTask s taskId) =
     {a. \<exists>i \<in> set (task_applications s taskId). getApplication s i = Some a} \<and>
   length (getApplicationsByTask s taskId) =
     length (filter (\<lambda>i. getApplication s i \<noteq> None) (task_applications s taskId)) \<and>
   set (getAllAgents s) = {g. \<exists>i \<in> set (all_agents s). getAgent s i = Some g} \<and>
   length (getAllAgents s) = length (filter (\<lambda>i. getAgent s i \<noteq> None) (all_agents s))"
  by (simp add: getAllTasks_def getActiveTasks_def getAllApplications_def
      getPendingApplications_def getApplicationsByTask_def getAllAgents_def
      sortTasks_def sortApplications_def
      set_collectTasks set_collectActiveTasks set_collectApplications
      set_collectPendingApplications set_collectAgents
      length_collectTasks length_collectApplications length_collectAgents)

theorem listings_skip_missing_records_witness:
  "getActiveTasks staleStore = [sampleTask] \<and>
   set (getActiveTasks staleStore) =
     {t. \<exists>i \<in> set (active_tasks staleStore). getTask staleStore i = Some t \<and> task_active t} \<and>
   getPendingApplications staleStore = [sampleApplication] \<and>
   set (getPendingApplications staleStore) =
     {a. \<exists>i \<in> set (pending_applications staleStore).
        getApplication staleStore i = Some a \<and> app_status a = Pending} \<and>
   getApplicationsByTask staleStore ''t1'' = [sampleApplication] \<and>
   length (getAllTasks staleStore) = 2 \<and>
   length (getAllApplications staleStore) = 2"
proof -
  have a: "getActiveTasks staleStore = [sampleTask]"
    by (simp add: getActiveTasks_def staleStore_def emptyStore_def getTask_def sortTasks_def
        sampleTask_def)
  have b: "getPendingApplications staleStore = [sampleApplication]"
    by (simp add: getPendingApplications_def staleStore_def emptyStore_def getApplication_def
        sortApplications_def sampleApplication_def reviewedApplication_def)
  have c: "getApplicationsByTask staleStore ''t1'' = [sampleApplication]"
    by (simp add: getApplicationsByTask_def staleStore_def emptyStore_def getApplication_def
        sortApplications_def sampleApplication_def reviewedApplication_def)
  have d: "length (filter (\<lambda>i. getTask staleStore i \<noteq> None) (all_tasks staleStore)) = 2"
    by (simp add: staleStore_def emptyStore_def getTask_def)
  have e: "length (filter (\<lambda>i. getApplication staleStore i \<noteq> None)
      (all_applications staleStore)) = 2"
    by (simp add: staleStore_def emptyStore_def getApplication_def)
  from listings_skip_missing_records [of staleStore "''t1''"] a b c d e
  show ?thesis by simp
qed

section \<open>Double-precision arithmetic: evaluation\<close>

lemma ilog2_bounds:
  assumes "0 < x"
  shows "2 powi ilog2 x \<le> x \<and> x < 2 powi (ilog2 x + 1)"
proof (cases "1 \<le> x")
  case True
  define n where "n = \<lfloor>x\<rfloor>"
  from True have n: "0 < n" by (simp add: n_def)
  from bitlen_bounds [OF n] have lo: "2 ^ nat (bitlen n - 1) \<le> n" and hi: "n < 2 ^ nat (bitlen n)"
    by simp_all
  from n have pos: "0 < bitlen n"
    using bitlen_eq_zero_iff [of n] bitlen_nonneg [of n] by linarith
  have "(2::real) powi (bitlen n - 1) = of_int (2 ^ nat (bitlen n - 1))"
    using pos by (simp add: power_int_def)
  also have "\<dots> \<le> of_int n" using lo by (simp only: of_int_le_iff)
  also have "\<dots> \<le> x" by (simp add: n_def)
  finally have a: "2 powi (bitlen n - 1) \<le> x" .
  from hi have "n + 1 \<le> 2 ^ nat (bitlen n)" by simp
  then have "of_int (n + 1) \<le> (of_int (2 ^ nat (bitlen n)) :: real)"
    by (simp only: of_int_le_iff)
  moreover have "x < of_int (n + 1)" by (simp add: n_def)
  moreover have "(of_int (2 ^ nat (bitlen n)) :: real) = 2 powi (bitlen n)"
    using pos by (simp add: power_int_def)
  ultimately have b: "x < 2 powi (bitlen n)" by simp
  from True a b show ?thesis by (simp add: ilog2_def n_def)
next
  case False
  define y where "y = 1 / x"
  define m where "m = \<lceil>y\<rceil>"
  from False assms have y1: "1 < y" by (simp add: y_def)
  then have m2: "2 \<le> m" unfolding m_def by linarith
  then have m1: "0 < m - 1" by simp
  define k where "k = bitlen (m - 1)"
  from bitlen_bounds [OF m1] have lo: "2 ^ nat (k - 1) \<le> m - 1" and hi: "m - 1 < 2 ^ nat k"
    by (simp_all add: k_def)
  from m1 have kpos: "0 < k"
    using bitlen_eq_zero_iff [of "m - 1"] bitlen_nonneg [of "m - 1"] unfolding k_def by linarith
  have e1: "(of_int (2 ^ nat k) :: real) = 2 ^ nat k" by simp
  have e2: "(of_int (2 ^ nat (k - 1)) :: real) = 2 ^ nat (k - 1)" by simp
  from hi have "m \<le> 2 ^ nat k" by simp
  then have "(of_int m :: real) \<le> of_int (2 ^ nat k)" by (simp only: of_int_le_iff)
  then have "(of_int m :: real) \<le> 2 ^ nat k" unfolding e1 .
  moreover have "y \<le> of_int m" by (simp add: m_def)
  ultimately have yk: "y \<le> 2 ^ nat k" by linarith
  have "(of_int (2 ^ nat (k - 1)) :: real) \<le> of_int (m - 1)" using lo by (simp only: of_int_le_iff)
  then have "(2::real) ^ nat (k - 1) \<le> of_int (m - 1)" unfolding e2 .
  moreover have "of_int (m - 1) < y" unfolding m_def by linarith
  ultimately have ky: "2 ^ nat (k - 1) < y" by linarith
  have p1: "(2::real) powi (- k) = 1 / 2 ^ nat k"
    using kpos by (simp add: power_int_def field_simps)
  have p2: "(2::real) powi (- k + 1) = 1 / 2 ^ nat (k - 1)"
    using kpos by (simp add: power_int_def field_simps nat_diff_distrib)
  have x: "x = 1 / y" using assms by (simp add: y_def)
  from yk y1 have a: "1 / 2 ^ nat k \<le> 1 / y"
    by (intro divide_left_mono) simp_all
  from ky y1 have b: "1 / y < 1 / 2 ^ nat (k - 1)"
    by (intro divide_strict_left_mono) simp_all
  have il: "ilog2 x = - k"
    using False by (simp add: ilog2_def k_def m_def y_def)
  have "2 powi (- k) \<le> x"
    using a by (simp only: p1 x)
  moreover have "x < 2 powi (- k + 1)"
    using b by (simp only: p2 x)
  ultimately show ?thesis
    by (simp only: il)
qed

lemma roundHalfEven_near: "\<bar>of_int (roundHalfEven q) - q\<bar> \<le> 1 / 2"
  unfolding roundHalfEven_def Let_def by (simp; linarith)

lemma round64_fee: "round64 (1 / 10) = 3602879701896397 / 36028797018963968"
  by code_simp

lemma round64_fee_lamports: "round64 (round64 (1 / 10) * 10 ^ 9) = 100000000"
  unfolding round64_fee by code_simp

lemma geProduct_fee: "geProduct a (round64 (1 / 10)) (10 ^ 9) = (100000000 \<le> a)"
  unfolding geProduct_def round64_fee_lamports Let_def by simp

lemma round64_067: "round64 (67 / 1000) = 1206964700135293 / 18014398509481984"
  by code_simp

lemma round64_067_lamports:
  "round64 (round64 (67 / 1000) * 10 ^ 9) = 8992587776000001 / 134217728"
  unfolding round64_067 by code_simp

lemma geProduct_067: "\<not> geProduct 67000000 (round64 (67 / 1000)) (10 ^ 9)"
  unfolding geProduct_def round64_067_lamports Let_def by simp

lemma geProduct_REGISTRATION_FEE:
  "geProduct a REGISTRATION_FEE (10 ^ 9) = (100000000 \<le> a)"
  "geProduct a REGISTRATION_FEE 1000000000 = (100000000 \<le> a)"
  using geProduct_fee [of a] by (simp_all add: REGISTRATION_FEE_def)

section \<open>Payment verification\<close>

lemma checkTransfers_valid:
  "valid (checkTransfers trs f t m) =
     (\<exists>tr \<in> set trs. fromUserAccount tr = f \<and> toUserAccount tr = t \<and>
        geProduct (amount tr) m (10 ^ 9))"
  by (induction trs) auto

lemma checkTransfers_invalid:
  "\<not> valid (checkTransfers trs f t m) \<Longrightarrow>
   error (checkTransfers trs f t m) = Some ''No matching transfer found in transaction'' \<and>
   verified_amount (checkTransfers trs f t m) = None"
  by (induction trs) (auto split: if_splits)

lemma verifyTransfer_valid:
  "valid (verifyTransfer response sg f t m) =
     (\<exists>tx rest trs. response = ResponseJson (Some tx # rest) \<and> \<not> truthy (transactionError tx) \<and>
        nativeTransfers tx = Some trs \<and>
        (\<exists>tr \<in> set trs. fromUserAccount tr = f \<and> toUserAccount tr = t \<and>
           geProduct (amount tr) m (10 ^ 9)))"
proof (cases response)
  case (ResponseJson txs)
  show ?thesis
  proof (cases txs)
    case Nil
    with ResponseJson show ?thesis by (simp add: verifyTransfer_def)
  next
    case (Cons otx rest)
    show ?thesis
    proof (cases otx)
      case None
      with ResponseJson Cons show ?thesis by (simp add: verifyTransfer_def)
    next
      case (Some tx)
      with ResponseJson Cons show ?thesis
        by (cases "nativeTransfers tx") (auto simp: verifyTransfer_def checkTransfers_valid)
    qed
  qed
qed (simp_all add: verifyTransfer_def)

lemma verifyTransfer_invalid:
  "\<not> valid (verifyTransfer response sg f t m) \<Longrightarrow>
   error (verifyTransfer response sg f t m) \<noteq> None \<and>
   verified_amount (verifyTransfer response sg f t m) = None"
  using checkTransfers_invalid
  by (auto simp: verifyTransfer_def split: fetchResult.splits list.splits option.splits)

lemma postAgentRegister_unverified:
  "\<not> valid (verifyRegistrationPayment helius (ra_txSignature body) (ra_wallet body)) \<Longrightarrow>
   isl (fst (postAgentRegister V body helius uuid apiKey now s)) \<and>
   fst (snd (postAgentRegister V body helius uuid apiKey now s)) = s"
  by (simp add: postAgentRegister_def Let_def split: option.splits)

lemma fee_paid:
  "valid (verifyTransfer (ResponseJson [Some (feeTransaction 100000000)]) sg sampleWallet
     REGISTRATION_WALLET REGISTRATION_FEE)"
  by (simp add: verifyTransfer_def feeTransaction_def truthy_def geProduct_REGISTRATION_FEE)

lemma fee_underpaid:
  "\<not> valid (verifyTransfer (ResponseJson [Some (feeTransaction 50000000)]) sg sampleWallet
     REGISTRATION_WALLET REGISTRATION_FEE)"
  by (simp add: verifyTransfer_def feeTransaction_def truthy_def geProduct_REGISTRATION_FEE)

text \<open>
  C7. \<open>verifyTransfer\<close> reports \<open>valid = true\<close> exactly when the transaction is found
  (the first entry of the response is present), carries no on-chain error, and lists a
  native transfer from \<open>fromWallet\<close> to \<open>toWallet\<close> whose amount passes the test
  \<open>amount >= minAmount * 1e9\<close> as double-precision arithmetic evaluates it, that is,
  against the product rounded to the nearest double; otherwise it reports
  \<open>valid = false\<close> with a reason. Registration verifies against the fixed registration
  address with the fee \<open>0.1\<close>, for which the rounded product is exactly 100000000
  lamports, and a transaction all of whose transfers are below 100000000 lamports makes
  the registration handler answer with an error and create no agent (the store is
  unchanged).
\<close>

theorem verifyTransfer_valid_iff:
  "(valid (verifyTransfer response sg f t m) =
     (\<exists>tx rest trs. response = ResponseJson (Some tx # rest) \<and> \<not> truthy (transactionError tx) \<and>
        nativeTransfers tx = Some trs \<and>
        (\<exists>tr \<in> set trs. fromUserAccount tr = f \<and> toUserAccount tr = t \<and>
           geProduct (amount tr) m (10 ^ 9)))) \<and>
   (\<not> valid (verifyTransfer response sg f t m) \<longrightarrow>
      error (verifyTransfer response sg f t m) \<noteq> None) \<and>
   verifyRegistrationPayment response sg f =
     verifyTransfer response sg f ''CKpRpJ2JTi7LuvoMRp4wKdzZbW6gZHhY612Rz5fLwpJ8''
       (round64 (1 / 10)) \<and>
   geProduct a (round64 (1 / 10)) (10 ^ 9) = (100000000 \<le> a) \<and>
   (helius = ResponseJson (Some tx' # rest') \<and> nativeTransfers tx' = Some trs' \<and>
      (\<forall>tr \<in> set trs'. amount tr < 100000000) \<longrightarrow>
    isl (fst (postAgentRegister V body helius uuid apiKey now s)) \<and>
    fst (snd (postAgentRegister V body helius uuid apiKey now s)) = s)"
proof (intro conjI impI)
  show "valid (verifyTransfer response sg f t m) =
     (\<exists>tx rest trs. response = ResponseJson (Some tx # rest) \<and> \<not> truthy (transactionError tx) \<and>
        nativeTransfers tx = Some trs \<and>
        (\<exists>tr \<in> set trs. fromUserAccount tr = f \<and> toUserAccount tr = t \<and>
           geProduct (amount tr) m (10 ^ 9)))"
    by (rule verifyTransfer_valid)
next
  assume "\<not> valid (verifyTransfer response sg f t m)"
  then show "error (verifyTransfer response sg f t m) \<noteq> None"
    using verifyTransfer_invalid by blast
next
  show "verifyRegistrationPayment response sg f =
     verifyTransfer response sg f ''CKpRpJ2JTi7LuvoMRp4wKdzZbW6gZHhY612Rz5fLwpJ8''
       (round64 (1 / 10))"
    by (simp add: verifyRegistrationPayment_def REGISTRATION_WALLET_def REGISTRATION_FEE_def)
next
  show "geProduct a (round64 (1 / 10)) (10 ^ 9) = (100000000 \<le> a)"
    by (rule geProduct_fee)
next
  assume h: "helius = ResponseJson (Some tx' # rest') \<and> nativeTransfers tx' = Some trs' \<and>
      (\<forall>tr \<in> set trs'. amount tr < 100000000)"
  have "\<not> valid (verifyRegistrationPayment helius (ra_txSignature body) (ra_wallet body))"
    unfolding verifyRegistrationPayment_def verifyTransfer_valid geProduct_REGISTRATION_FEE
    using h by fastforce
  then have r: "isl (fst (postAgentRegister V body helius uuid apiKey now s)) \<and>
      fst (snd (postAgentRegister V body helius uuid apiKey now s)) = s"
    by (rule postAgentRegister_unverified)
  from r show "isl (fst (postAgentRegister V body helius uuid apiKey now s))" by simp
  from r show "fst (snd (postAgentRegister V body helius uuid apiKey now s)) = s" by simp
qed

text \<open>
  The test is not against the exact product. With \<open>minAmount = 0.067\<close> a transfer of
  67000000 lamports, which is \<open>0.067 * 10^9\<close>, is refused, because the rounded product
  of the double \<open>0.067\<close> and \<open>10^9\<close> lies above 67000000. With \<open>minAmount = 0.1\<close> a
  transfer of 100000000 lamports is accepted, although the exact product of the double
  \<open>0.1\<close> and \<open>10^9\<close> lies above 100000000.
\<close>

theorem exact_product_counterexample:
  "(67 / 1000) * 10 ^ 9 \<le> (67000000 :: real) \<and>
   \<not> valid (verifyTransfer (ResponseJson [Some (feeTransaction 67000000)]) ''tx1'' sampleWallet
        REGISTRATION_WALLET (round64 (67 / 1000))) \<and>
   (100000000 :: real) < round64 (1 / 10) * 10 ^ 9 \<and>
   valid (verifyTransfer (ResponseJson [Some (feeTransaction 100000000)]) ''tx1'' sampleWallet
        REGISTRATION_WALLET (round64 (1 / 10)))"
proof -
  have a: "\<not> valid (verifyTransfer (ResponseJson [Some (feeTransaction 67000000)]) ''tx1''
      sampleWallet REGISTRATION_WALLET (round64 (67 / 1000)))"
    unfolding verifyTransfer_valid using geProduct_067
    by (simp add: feeTransaction_def)
  have b: "(100000000 :: real) < round64 (1 / 10) * 10 ^ 9"
    unfolding round64_fee by simp
  have c: "valid (verifyTransfer (ResponseJson [Some (feeTransaction 100000000)]) ''tx1''
      sampleWallet REGISTRATION_WALLET (round64 (1 / 10)))"
    using fee_paid [of "''tx1''"] by (simp add: REGISTRATION_FEE_def)
  from a b c show ?thesis by simp
qed

theorem verifyTransfer_valid_iff_witness:
  "valid (verifyTransfer (ResponseJson [Some (feeTransaction 100000000)]) ''tx1'' sampleWallet
      REGISTRATION_WALLET REGISTRATION_FEE) \<and>
   \<not> valid (verifyTransfer (ResponseJson [Some (feeTransaction 50000000)]) ''tx1'' sampleWallet
      REGISTRATION_WALLET REGISTRATION_FEE) \<and>
   error (verifyTransfer (ResponseJson [Some (feeTransaction 50000000)]) ''tx1'' sampleWallet
      REGISTRATION_WALLET REGISTRATION_FEE) \<noteq> None \<and>
   geProduct 100000000 (round64 (1 / 10)) (10 ^ 9) \<and>
   \<not> geProduct 99999999 (round64 (1 / 10)) (10 ^ 9) \<and>
   postAgentRegister acceptSample sampleRegistration
      (ResponseJson [Some (feeTransaction 50000000)]) ''g1'' ''mb_key1'' 100 emptyStore =
     (Inl (400, ''Payment verification failed''), emptyStore,
      [VerifyTransfer ''tx1'' sampleWallet REGISTRATION_WALLET REGISTRATION_FEE])"
proof -
  note v = fee_paid [of "''tx1''"]
  note n = fee_underpaid [of "''tx1''"]
  have p: "postAgentRegister acceptSample sampleRegistration
      (ResponseJson [Some (feeTransaction 50000000)]) ''g1'' ''mb_key1'' 100 emptyStore =
     (Inl (400, ''Payment verification failed''), emptyStore,
      [VerifyTransfer ''tx1'' sampleWallet REGISTRATION_WALLET REGISTRATION_FEE])"
    using n
    by (simp add: postAgentRegister_def registerAgentSchema_def sampleRegistration_def
        acceptSample_def sampleWallet_def getAgentByWallet_def emptyStore_def
        verifyRegistrationPayment_def Let_def)
  from verifyTransfer_valid_iff [of "ResponseJson [Some (feeTransaction 50000000)]" "''tx1''"
      sampleWallet REGISTRATION_WALLET REGISTRATION_FEE 100000000
      "ResponseJson [Some (feeTransaction 50000000)]" "feeTransaction 50000000" "[]"
      "[\<lparr>fromUserAccount = sampleWallet, toUserAccount = REGISTRATION_WALLET, amount = 50000000\<rparr>]"
      acceptSample sampleRegistration "''g1''" "''mb_key1''" 100 emptyStore]
    verifyTransfer_valid_iff [of "ResponseJson [Some (feeTransaction 50000000)]" "''tx1''"
      sampleWallet REGISTRATION_WALLET REGISTRATION_FEE 99999999
      "ResponseJson [Some (feeTransaction 50000000)]" "feeTransaction 50000000" "[]"
      "[\<lparr>fromUserAccount = sampleWallet, toUserAccount = REGISTRATION_WALLET, amount = 50000000\<rparr>]"
      acceptSample sampleRegistration "''g1''" "''mb_key1''" 100 emptyStore]
    v n p
  show ?thesis by simp
qed

section \<open>Registration of a wallet that is already bound\<close>

lemma registeredStore_wallet:
  "getAgentByWallet registeredStore sampleWallet =
     Some \<lparr>agent_id = ''g1'', agent_name = ''My AI Agent'', agent_walletAddress = sampleWallet,
           agent_apiKey = ''mb_key1'', agent_paymentTxSignature = ''tx1'',
           agent_paymentAmount = round64 (1 / 10), agent_createdAt = 100, agent_active = True,
           agent_tasksCreated = 0\<rparr>"
  by (simp add: registeredStore_def postAgentRegister_def registerAgentSchema_def
      sampleRegistration_def acceptSample_def sampleWallet_def getAgentByWallet_def
      emptyStore_def verifyRegistrationPayment_def verifyTransfer_def feeTransaction_def
      truthy_def geProduct_REGISTRATION_FEE Let_def createAgent_def incrementStat_def
      getAgent_def sadd_def)

text \<open>
  C6. A registration request whose wallet is already bound to an existing agent is
  rejected before any payment verification is attempted: the handler answers with an
  error, makes no gateway call, leaves the store unchanged and so creates no agent,
  whatever the verification of the supplied transaction would have reported. For a
  request that passes the body schema and the address-format check, the two checks the
  handler makes first, the error is ``Wallet already registered as an agent''.
\<close>

theorem duplicate_wallet_rejected:
  assumes "getAgentByWallet s (ra_wallet body) = Some existingAgent"
  shows "isl (fst (postAgentRegister V body helius uuid apiKey now s)) \<and>
         snd (postAgentRegister V body helius uuid apiKey now s) = (s, []) \<and>
         (registerAgentSchema body \<and> V (ra_wallet body) \<longrightarrow>
          postAgentRegister V body helius uuid apiKey now s =
            (Inl (400, ''Wallet already registered as an agent''), s, []))"
  using assms by (simp add: postAgentRegister_def)

theorem duplicate_wallet_rejected_witness:
  "getAgentByWallet registeredStore sampleWallet \<noteq> None \<and>
   registerAgentSchema (sampleRegistration\<lparr>ra_txSignature := ''tx2''\<rparr>) \<and>
   acceptSample (ra_wallet (sampleRegistration\<lparr>ra_txSignature := ''tx2''\<rparr>)) \<and>
   valid (verifyRegistrationPayment (ResponseJson [Some (feeTransaction 100000000)]) ''tx2''
     sampleWallet) \<and>
   postAgentRegister acceptSample (sampleRegistration\<lparr>ra_txSignature := ''tx2''\<rparr>)
       (ResponseJson [Some (feeTransaction 100000000)]) ''g2'' ''mb_key2'' 200 registeredStore =
     (Inl (400, ''Wallet already registered as an agent''), registeredStore, [])"
proof -
  have a: "registerAgentSchema (sampleRegistration\<lparr>ra_txSignature := ''tx2''\<rparr>)"
    by (simp add: registerAgentSchema_def sampleRegistration_def sampleWallet_def)
  have b: "acceptSample (ra_wallet (sampleRegistration\<lparr>ra_txSignature := ''tx2''\<rparr>))"
    by (simp add: acceptSample_def sampleRegistration_def)
  have c: "getAgentByWallet registeredStore (ra_wallet (sampleRegistration\<lparr>ra_txSignature := ''tx2''\<rparr>)) =
     Some \<lparr>agent_id = ''g1'', agent_name = ''My AI Agent'', agent_walletAddress = sampleWallet,
           agent_apiKey = ''mb_key1'', agent_paymentTxSignature = ''tx1'',
           agent_paymentAmount = round64 (1 / 10), agent_createdAt = 100, agent_active = True,
           agent_tasksCreated = 0\<rparr>"
    using registeredStore_wallet by (simp add: sampleRegistration_def)
  have v: "valid (verifyRegistrationPayment (ResponseJson [Some (feeTransaction 100000000)]) ''tx2''
     sampleWallet)"
    using fee_paid [of "''tx2''"] by (simp add: verifyRegistrationPayment_def)
  from duplicate_wallet_rejected [where V = acceptSample and
      helius = "ResponseJson [Some (feeTransaction 100000000)]" and uuid = "''g2''" and
      apiKey = "''mb_key2''" and now = 200, OF c] a b c v registeredStore_wallet
  show ?thesis by (simp add: sampleRegistration_def)
qed

section \<open>Review and payment fields of applications\<close>

lemma application_rec_createApplication:
  "application_rec (snd (createApplication body ti pt uuid now s)) =
     (application_rec s)(uuid \<mapsto> fst (createApplication body ti pt uuid now s))"
  by (simp add: createApplication_def Let_def incrementStat_def)

lemma createApplication_ok: "applicationOk (fst (createApplication body ti pt uuid now s))"
  by (simp add: createApplication_def Let_def applicationOk_def)

lemma applicationsOk_postApplications:
  "applicationsOk s \<Longrightarrow> applicationsOk (snd (postApplications V body uuid now s))"
  by (auto simp: postApplications_def applicationsOk_def case_prod_beta
      application_rec_createApplication createApplication_ok split: option.splits)

lemma application_rec_createTask:
  "application_rec (snd (createTask body uuid now s)) = application_rec s"
  by (simp add: createTask_def Let_def incrementStat_def)

lemma application_rec_createAgent:
  "application_rec (snd (createAgent n w t p uuid k now s)) = application_rec s"
  by (simp add: createAgent_def Let_def incrementStat_def)

lemma application_rec_incrementAgentTasksCreated:
  "application_rec (incrementAgentTasksCreated i s) = application_rec s"
  by (simp add: incrementAgentTasksCreated_def split: option.splits)

lemma application_rec_deleteTask: "application_rec (snd (deleteTask i s)) = application_rec s"
  by (simp add: deleteTask_def split: option.splits)

lemma application_rec_postAgentRegister:
  "application_rec (fst (snd (postAgentRegister V body helius uuid apiKey now s))) = application_rec s"
  by (simp add: postAgentRegister_def Let_def case_prod_beta application_rec_createAgent
      split: option.splits)

lemma application_rec_postAgentTasks:
  "application_rec (snd (postAgentTasks apiKey body uuid now s)) = application_rec s"
  by (simp add: postAgentTasks_def case_prod_beta application_rec_createTask
      application_rec_incrementAgentTasksCreated split: sum.splits)

lemma application_rec_postAdminTasks:
  "application_rec (snd (postAdminTasks body uuid now s)) = application_rec s"
  by (simp add: postAdminTasks_def case_prod_beta application_rec_createTask)

lemma application_rec_putAdminTask:
  "application_rec (snd (putAdminTask i body s)) = application_rec s"
  by (simp add: putAdminTask_def case_prod_beta application_rec_updateTask split: option.splits)

lemma application_rec_deleteAdminTask:
  "application_rec (snd (deleteAdminTask i s)) = application_rec s"
  by (simp add: deleteAdminTask_def case_prod_beta application_rec_deleteTask)

lemma application_rec_updateApplication_other:
  "j \<noteq> i \<Longrightarrow> application_rec (snd (updateApplication i u s)) j = application_rec s j"
  by (simp add: updateApplication_def getApplication_def Let_def split: option.splits)

lemma application_rec_putAdminApplication_other:
  "j \<noteq> i \<Longrightarrow>
   application_rec (fst (snd (putAdminApplication i st p n n' s))) j = application_rec s j"
  by (simp add: putAdminApplication_def Let_def case_prod_beta
      application_rec_updateApplication_other application_rec_incrementStat
      application_rec_incrementTaskCompletions split: option.splits)

text \<open>What a review leaves under the reviewed id.\<close>

lemma application_rec_putAdminApplication_same:
  assumes "application_rec (fst (snd (putAdminApplication i st p n n' s))) i = Some a'"
  shows "application_rec s i = Some a' \<or>
    (\<exists>a. application_rec s i = Some a \<and> app_status a = Pending \<and>
       ((app_status a' = Approved \<and> app_reviewedAt a' = Some n \<and> app_paidAt a' = Some n' \<and>
           app_txSignature a' = pay_signature p \<and> pay_success p) \<or>
        (app_status a' = Rejected \<and> app_reviewedAt a' = Some n \<and>
           app_paidAt a' = app_paidAt a \<and> app_txSignature a' = app_txSignature a)))"
  using assms
  by (cases p)
    (auto simp: putAdminApplication_def Let_def case_prod_beta getApplication_def
      application_rec_updateApplication application_rec_incrementStat
      application_rec_incrementTaskCompletions mergeApplication_def orElse_def
      noApplicationUpdates_def
      split: if_splits option.splits)

lemma applicationsOk_putAdminApplication:
  assumes "applicationsOk s"
  shows "applicationsOk (fst (snd (putAdminApplication i st p n n' s)))"
  unfolding applicationsOk_def
proof (intro allI impI)
  fix j a'
  assume h: "application_rec (fst (snd (putAdminApplication i st p n n' s))) j = Some a'"
  show "applicationOk a'"
  proof (cases "j = i")
    case False
    with h assms show ?thesis
      by (simp add: application_rec_putAdminApplication_other applicationsOk_def)
  next
    case True
    with h application_rec_putAdminApplication_same [of i st p n n' s a']
    consider "application_rec s i = Some a'"
      | a where "application_rec s i = Some a" "app_status a = Pending"
          "app_status a' = Approved" "app_reviewedAt a' = Some n" "app_paidAt a' = Some n'"
          "app_txSignature a' = pay_signature p" "pay_success p"
      | a where "application_rec s i = Some a" "app_status a = Pending"
          "app_status a' = Rejected" "app_reviewedAt a' = Some n"
          "app_paidAt a' = app_paidAt a" "app_txSignature a' = app_txSignature a"
      by blast
    then show ?thesis
    proof cases
      case 1
      with assms show ?thesis by (simp add: applicationsOk_def)
    next
      case 2
      then show ?thesis by (cases p) (simp_all add: applicationOk_def)
    next
      case 3
      with assms have "applicationOk a" by (simp add: applicationsOk_def)
      with 3 show ?thesis by (simp add: applicationOk_def)
    qed
  qed
qed

lemma applicationsOk_step: "applicationsOk s \<Longrightarrow> applicationsOk (step V r s)"
proof (cases r)
  case (PostAgentApply k body uuid now)
  assume "applicationsOk s"
  then show ?thesis
    using PostAgentApply applicationsOk_postApplications [of s V body uuid now]
    by (simp add: postAgentApply_def split: sum.splits)
qed (simp_all add: applicationsOk_postApplications applicationsOk_putAdminApplication,
     simp_all add: applicationsOk_def application_rec_postAgentRegister
       application_rec_postAgentTasks application_rec_postAdminTasks
       application_rec_putAdminTask application_rec_deleteAdminTask)

lemma applicationsOk_run: "applicationsOk s \<Longrightarrow> applicationsOk (run V rs s)"
  by (induction rs arbitrary: s) (simp_all add: applicationsOk_step)

lemma applicationsOk_emptyStore: "applicationsOk emptyStore"
  by (simp add: applicationsOk_def emptyStore_def)

text \<open>
  C5. In every state reached from the empty store by a sequence of requests, a stored
  application has both \<open>txSignature\<close> and \<open>paidAt\<close> exactly when its status is
  \<open>approved\<close>: a pending application (as created) has no \<open>reviewedAt\<close>, \<open>paidAt\<close> or
  \<open>txSignature\<close>; a rejected one has \<open>reviewedAt\<close> and neither of the payment fields; an
  approved one has all three.
\<close>

theorem payment_fields_iff_approved:
  assumes "getApplication (run V rs emptyStore) i = Some a"
  shows "((app_txSignature a \<noteq> None \<and> app_paidAt a \<noteq> None) = (app_status a = Approved)) \<and>
         (app_status a = Pending \<longrightarrow>
            app_reviewedAt a = None \<and> app_paidAt a = None \<and> app_txSignature a = None) \<and>
         (app_status a = Rejected \<longrightarrow>
            app_reviewedAt a \<noteq> None \<and> app_paidAt a = None \<and> app_txSignature a = None) \<and>
         (app_status a = Approved \<longrightarrow>
            app_reviewedAt a \<noteq> None \<and> app_paidAt a \<noteq> None \<and> app_txSignature a \<noteq> None)"
proof -
  have "applicationsOk (run V rs emptyStore)"
    by (rule applicationsOk_run [OF applicationsOk_emptyStore])
  with assms have "applicationOk a"
    by (simp add: applicationsOk_def getApplication_def)
  then show ?thesis
    by (cases "app_status a") (simp_all add: applicationOk_def)
qed

lemma reviewTrace_a1:
  "getApplication (run acceptSample reviewTrace emptyStore) ''a1'' = Some approvedApplication"
  by (simp add: reviewTrace_def submitTrace_def sample_defs handler_defs)

lemma reviewTrace_a2:
  "getApplication (run acceptSample reviewTrace emptyStore) ''a2'' =
     Some (sampleApplication\<lparr>app_id := ''a2'', app_submittedAt := 1001, app_status := Rejected,
        app_reviewedAt := Some 3000\<rparr>)"
  by (simp add: reviewTrace_def submitTrace_def sample_defs handler_defs)

theorem payment_fields_iff_approved_witness:
  "getApplication (run acceptSample reviewTrace emptyStore) ''a1'' = Some approvedApplication \<and>
   app_status approvedApplication = Approved \<and>
   app_txSignature approvedApplication = Some ''sig1'' \<and>
   app_paidAt approvedApplication = Some 2001 \<and>
   getApplication (run acceptSample reviewTrace emptyStore) ''a2'' =
     Some (sampleApplication\<lparr>app_id := ''a2'', app_submittedAt := 1001, app_status := Rejected,
        app_reviewedAt := Some 3000\<rparr>) \<and>
   app_txSignature (sampleApplication\<lparr>app_id := ''a2'', app_submittedAt := 1001,
        app_status := Rejected, app_reviewedAt := Some 3000\<rparr>) = None \<and>
   app_paidAt (sampleApplication\<lparr>app_id := ''a2'', app_submittedAt := 1001,
        app_status := Rejected, app_reviewedAt := Some 3000\<rparr>) = None"
proof -
  have s: "app_status approvedApplication = Approved"
    by (simp add: approvedApplication_def)
  from payment_fields_iff_approved [OF reviewTrace_a1] payment_fields_iff_approved [OF reviewTrace_a2]
    reviewTrace_a1 reviewTrace_a2 s
  show ?thesis by (simp add: approvedApplication_def)
qed

section \<open>What requests do to task records\<close>

lemma task_rec_createApplication:
  "task_rec (snd (createApplication body ti pt uuid now s)) = task_rec s"
  by (simp add: createApplication_def Let_def incrementStat_def)

lemma task_rec_postApplications:
  "task_rec (snd (postApplications V body uuid now s)) = task_rec s"
  by (simp add: postApplications_def case_prod_beta task_rec_createApplication
      split: option.splits)

lemma task_rec_postAgentApply:
  "task_rec (snd (postAgentApply V k body uuid now s)) = task_rec s"
  by (simp add: postAgentApply_def task_rec_postApplications split: sum.splits)

lemma task_rec_createAgent:
  "task_rec (snd (createAgent n w t p uuid k now s)) = task_rec s"
  by (simp add: createAgent_def Let_def incrementStat_def)

lemma task_rec_postAgentRegister:
  "task_rec (fst (snd (postAgentRegister V body helius uuid apiKey now s))) = task_rec s"
  by (simp add: postAgentRegister_def Let_def case_prod_beta task_rec_createAgent
      split: option.splits)

lemma task_rec_createTask:
  "task_rec (snd (createTask body uuid now s)) =
     (task_rec s)(uuid \<mapsto> expectedTask body uuid now)"
  by (simp add: createTask_def Let_def incrementStat_def expectedTask_def)

lemma task_rec_incrementAgentTasksCreated:
  "task_rec (incrementAgentTasksCreated i s) = task_rec s"
  by (simp add: incrementAgentTasksCreated_def split: option.splits)

lemma task_rec_postAdminTasks:
  "task_rec (snd (postAdminTasks body uuid now s)) =
     (if insertTaskSchema body then (task_rec s)(uuid \<mapsto> expectedTask body uuid now)
      else task_rec s)"
  by (simp add: postAdminTasks_def case_prod_beta task_rec_createTask)

lemma task_rec_postAgentTasks:
  "task_rec (snd (postAgentTasks k body uuid now s)) = task_rec s \<or>
   task_rec (snd (postAgentTasks k body uuid now s)) =
     (task_rec s)(uuid \<mapsto> expectedTask body uuid now) \<and> insertTaskSchema body"
  by (simp add: postAgentTasks_def case_prod_beta task_rec_createTask
      task_rec_incrementAgentTasksCreated split: sum.splits)

lemma task_rec_updateTask:
  "task_rec (snd (updateTask i u s)) =
     (case task_rec s i of None \<Rightarrow> task_rec s | Some t \<Rightarrow> (task_rec s)(i \<mapsto> mergeTask t u i))"
  by (auto simp: updateTask_def getTask_def Let_def split: option.splits)

lemma task_rec_putAdminTask:
  "task_rec (snd (putAdminTask i u s)) =
     (case task_rec s i of None \<Rightarrow> task_rec s | Some t \<Rightarrow> (task_rec s)(i \<mapsto> mergeTask t u i))"
  by (simp add: putAdminTask_def getTask_def case_prod_beta task_rec_updateTask
      split: option.splits)

lemma task_rec_deleteAdminTask:
  "task_rec (snd (deleteAdminTask i s)) = (task_rec s)(i := None)"
  by (auto simp: deleteAdminTask_def deleteTask_def getTask_def case_prod_beta
      split: option.splits)

lemma task_rec_updateApplication: "task_rec (snd (updateApplication i u s)) = task_rec s"
  by (simp add: updateApplication_def Let_def split: option.splits)

lemma task_rec_incrementTaskCompletions:
  "task_rec (incrementTaskCompletions i s) =
     (case task_rec s i of
        None \<Rightarrow> task_rec s
      | Some t \<Rightarrow> (task_rec s)(i \<mapsto> mergeTask t
          (noTaskUpdates\<lparr>upd_totalCompletions := Some (task_totalCompletions t + 1)\<rparr>) i))"
  by (simp add: incrementTaskCompletions_def getTask_def task_rec_incrementStat
      task_rec_updateTask split: option.splits)

lemma task_rec_putAdminApplication:
  "task_rec (fst (snd (putAdminApplication i st p n n' s))) = task_rec s \<or>
   (\<exists>a t. application_rec s i = Some a \<and> task_rec s (app_taskId a) = Some t \<and>
      task_rec (fst (snd (putAdminApplication i st p n n' s))) =
        (task_rec s)(app_taskId a \<mapsto> completed t (app_taskId a)))"
  by (auto simp: putAdminApplication_def Let_def case_prod_beta getApplication_def getTask_def
      task_rec_updateApplication task_rec_incrementStat task_rec_incrementTaskCompletions
      completed_def
      split: option.splits)

lemma completed_fields:
  "task_reward (completed t i) = task_reward t"
  "task_maxCompletions (completed t i) = task_maxCompletions t"
  "task_totalCompletions (completed t i) = task_totalCompletions t + 1"
  by (simp_all add: completed_def mergeTask_def noTaskUpdates_def orElse_def)

lemma task_step_other:
  assumes "\<not> isReview r" and "\<not> isTaskUpdate r" and "freshRequest r s"
    and "task_rec s i = Some t" and "task_rec (step V r s) i = Some t'"
  shows "t' = t"
proof (cases r)
  case (PostAgentTasks k body uuid now)
  with assms task_rec_postAgentTasks [of k body uuid now s] show ?thesis
    by (auto split: if_splits)
qed (use assms in \<open>auto simp: task_rec_postApplications task_rec_postAgentApply
      task_rec_postAgentRegister task_rec_postAdminTasks task_rec_deleteAdminTask
      split: if_splits\<close>)

lemma task_step_review:
  assumes "task_rec s i = Some t"
    and "task_rec (step V (PutAdminApplication j st p n n') s) i = Some t'"
  shows "t' = t \<or> t' = completed t i"
  using assms task_rec_putAdminApplication [of j st p n n' s]
  by (auto split: if_splits)

lemma task_step_update:
  assumes "task_rec s i = Some t"
    and "task_rec (step V (PutAdminTask j body) s) i = Some t'"
  shows "t' = (if j = i then mergeTask t body i else t)"
  using assms by (auto simp: task_rec_putAdminTask split: option.splits if_splits)

text \<open>
  C9. The reward of a stored task is changed by one kind of request only. For every
  request whose generated ids are fresh, a task stored under an id before and after the
  request has the reward given by \<open>rewardAfter\<close>: an admin update of that task whose body
  carries a \<open>reward\<close> replaces the reward by the body's value (the update merges the body
  onto the record and protects only \<open>id\<close>); every other request leaves the reward as it
  was.
\<close>

theorem reward_changes_only_by_admin_update:
  assumes "getTask s i = Some t"
    and "getTask (step V r s) i = Some t'"
    and "freshRequest r s"
  shows "task_reward t' = rewardAfter r i (task_reward t)"
proof (cases "isReview r \<or> isTaskUpdate r")
  case False
  with assms have "t' = t"
    using task_step_other [of r s i t V t'] by (simp add: getTask_def)
  with False show ?thesis by (cases r) simp_all
next
  case True
  then show ?thesis
  proof (cases r)
    case (PutAdminTask j body)
    with assms have "t' = (if j = i then mergeTask t body i else t)"
      using task_step_update [of s i t V j body t'] by (simp add: getTask_def)
    with PutAdminTask show ?thesis by (simp add: mergeTask_def)
  next
    case (PutAdminApplication j st p n n')
    with assms have "t' = t \<or> t' = completed t i"
      using task_step_review [of s i t V j st p n n' t'] by (simp add: getTask_def)
    with PutAdminApplication show ?thesis by (auto simp: completed_fields)
  qed simp_all
qed

lemma createdStore_task: "getTask createdStore ''t1'' = Some sampleTask"
  by (simp add: createdStore_def sample_defs handler_defs)

text \<open>
  The reward is not fixed at creation: a task created with reward 1 has reward 2 after an
  admin update whose body is \<open>{ reward: 2 }\<close>.
\<close>

theorem reward_fixed_counterexample:
  "getTask (run acceptSample [PostAdminTasks sampleInsertTask ''t1'' 500] emptyStore) ''t1'' =
     Some sampleTask \<and>
   task_reward sampleTask = 1 \<and>
   getTask (run acceptSample
       [PostAdminTasks sampleInsertTask ''t1'' 500, PutAdminTask ''t1'' raiseReward] emptyStore)
     ''t1'' = Some (sampleTask\<lparr>task_reward := 2\<rparr>)"
  by (simp add: raiseReward_def sample_defs handler_defs)

theorem reward_changes_only_by_admin_update_witness:
  "getTask createdStore ''t1'' = Some sampleTask \<and>
   getTask (step acceptSample (PutAdminTask ''t1'' raiseReward) createdStore) ''t1'' =
     Some (sampleTask\<lparr>task_reward := 2\<rparr>) \<and>
   freshRequest (PutAdminTask ''t1'' raiseReward) createdStore \<and>
   task_reward (sampleTask\<lparr>task_reward := 2\<rparr>) =
     rewardAfter (PutAdminTask ''t1'' raiseReward) ''t1'' (task_reward sampleTask) \<and>
   rewardAfter (PutAdminTask ''t1'' raiseReward) ''t1'' (task_reward sampleTask) = 2"
proof -
  have a: "getTask createdStore ''t1'' = Some sampleTask"
    by (rule createdStore_task)
  have b: "getTask (step acceptSample (PutAdminTask ''t1'' raiseReward) createdStore) ''t1'' =
     Some (sampleTask\<lparr>task_reward := 2\<rparr>)"
    by (simp add: createdStore_def raiseReward_def sample_defs handler_defs)
  have c: "freshRequest (PutAdminTask ''t1'' raiseReward) createdStore"
    by simp
  have d: "rewardAfter (PutAdminTask ''t1'' raiseReward) ''t1'' (task_reward sampleTask) = 2"
    by (simp add: raiseReward_def orElse_def)
  from reward_changes_only_by_admin_update [OF a b c] a b c d show ?thesis by simp
qed

section \<open>Capacity of a task\<close>

lemma submission_at_capacity:
  assumes "getTask s (ia_taskId body) = Some t \<and> task_maxCompletions t = Some m \<and> m \<noteq> 0 \<and>
      m \<le> task_totalCompletions t"
  shows "isl (fst (postApplications V body uuid now s)) \<and>
    snd (postApplications V body uuid now s) = s \<and>
    isl (fst (postAgentApply V k body uuid now s)) \<and>
    snd (postAgentApply V k body uuid now s) = s \<and>
    (insertApplicationSchema body \<and> V (ia_walletAddress body) \<and> task_active t \<longrightarrow>
     fst (postApplications V body uuid now s) =
       Inl (400, ''No slots available for this task''))"
  using assms
  by (simp add: postApplications_def postAgentApply_def slotsFull_def split: sum.splits)

lemma task_created_by_step:
  assumes "task_rec s i = None" and "task_rec (step V r s) i = Some t'"
  shows "task_totalCompletions t' = 0 \<and> (\<forall>m. task_maxCompletions t' = Some m \<longrightarrow> 0 < m)"
proof (cases r)
  case (PostAgentTasks k body uuid now)
  with assms task_rec_postAgentTasks [of k body uuid now s] show ?thesis
    by (auto simp: expectedTask_def insertTaskSchema_def split: if_splits)
next
  case (PostAdminTasks body uuid now)
  with assms show ?thesis
    by (auto simp: task_rec_postAdminTasks expectedTask_def insertTaskSchema_def
        split: if_splits)
next
  case (PutAdminApplication j st p n n')
  with assms task_rec_putAdminApplication [of j st p n n' s] show ?thesis
    by (auto split: if_splits)
qed (use assms in \<open>auto simp: task_rec_postApplications task_rec_postAgentApply
      task_rec_postAgentRegister task_rec_putAdminTask task_rec_deleteAdminTask
      split: if_splits option.splits\<close>)

text \<open>
  C2. Capacity is checked when an application is submitted. A submission (public or agent
  route) for a task whose \<open>maxCompletions\<close> is set (and not 0) and whose
  \<open>totalCompletions\<close> has reached it is rejected and leaves the store unchanged; when
  the body, the wallet address and the task's \<open>active\<close> flag pass the earlier checks the
  error is ``No slots available for this task''. Every request other than a review and
  an admin task update leaves \<open>totalCompletions\<close> and \<open>maxCompletions\<close> of every stored
  task unchanged, and a task that a request creates starts with \<open>totalCompletions = 0\<close>
  and a positive \<open>maxCompletions\<close> when it has one.
\<close>

theorem capacity_checked_at_submission:
  "(getTask s (ia_taskId body) = Some t \<and> task_maxCompletions t = Some m \<and> m \<noteq> 0 \<and>
      m \<le> task_totalCompletions t \<longrightarrow>
    isl (fst (postApplications V body uuid now s)) \<and>
    snd (postApplications V body uuid now s) = s \<and>
    isl (fst (postAgentApply V k body uuid now s)) \<and>
    snd (postAgentApply V k body uuid now s) = s \<and>
    (insertApplicationSchema body \<and> V (ia_walletAddress body) \<and> task_active t \<longrightarrow>
     fst (postApplications V body uuid now s) =
       Inl (400, ''No slots available for this task''))) \<and>
   (getTask s' i = Some u \<and> getTask (step V r s') i = Some u' \<and> freshRequest r s' \<and>
      \<not> isReview r \<and> \<not> isTaskUpdate r \<longrightarrow>
    task_totalCompletions u' = task_totalCompletions u \<and>
    task_maxCompletions u' = task_maxCompletions u) \<and>
   (getTask s' i = None \<and> getTask (step V r s') i = Some u' \<longrightarrow>
    task_totalCompletions u' = 0 \<and> (\<forall>n. task_maxCompletions u' = Some n \<longrightarrow> 0 < n))"
proof (intro conjI)
  show "getTask s (ia_taskId body) = Some t \<and> task_maxCompletions t = Some m \<and> m \<noteq> 0 \<and>
      m \<le> task_totalCompletions t \<longrightarrow>
    isl (fst (postApplications V body uuid now s)) \<and>
    snd (postApplications V body uuid now s) = s \<and>
    isl (fst (postAgentApply V k body uuid now s)) \<and>
    snd (postAgentApply V k body uuid now s) = s \<and>
    (insertApplicationSchema body \<and> V (ia_walletAddress body) \<and> task_active t \<longrightarrow>
     fst (postApplications V body uuid now s) =
       Inl (400, ''No slots available for this task''))"
    using submission_at_capacity by blast
next
  show "getTask s' i = Some u \<and> getTask (step V r s') i = Some u' \<and> freshRequest r s' \<and>
      \<not> isReview r \<and> \<not> isTaskUpdate r \<longrightarrow>
    task_totalCompletions u' = task_totalCompletions u \<and>
    task_maxCompletions u' = task_maxCompletions u"
  proof
    assume "getTask s' i = Some u \<and> getTask (step V r s') i = Some u' \<and> freshRequest r s' \<and>
      \<not> isReview r \<and> \<not> isTaskUpdate r"
    then have "u' = u"
      using task_step_other [of r s' i u V u'] by (simp add: getTask_def)
    then show "task_totalCompletions u' = task_totalCompletions u \<and>
      task_maxCompletions u' = task_maxCompletions u" by simp
  qed
next
  show "getTask s' i = None \<and> getTask (step V r s') i = Some u' \<longrightarrow>
    task_totalCompletions u' = 0 \<and> (\<forall>n. task_maxCompletions u' = Some n \<longrightarrow> 0 < n)"
    using task_created_by_step [of s' i V r u'] by (simp add: getTask_def)
qed

text \<open>
  \<open>totalCompletions \<le> maxCompletions\<close> is not an invariant of the reachable states.
  Two applications submitted while a task with \<open>maxCompletions = 1\<close> still has a free
  slot can both be approved, which leaves \<open>totalCompletions = 2\<close>; and an admin task
  update can set \<open>totalCompletions\<close> directly.
\<close>

theorem capacity_invariant_counterexample:
  "freshRun acceptSample overTrace emptyStore \<and>
   map_option task_maxCompletions (getTask (run acceptSample overTrace emptyStore) ''t1'') =
     Some (Some 1) \<and>
   map_option task_totalCompletions (getTask (run acceptSample overTrace emptyStore) ''t1'') =
     Some 2 \<and>
   map_option task_maxCompletions (getTask (run acceptSample
       [PostAdminTasks sampleInsertTask ''t1'' 500, PutAdminTask ''t1'' setCompletions]
       emptyStore) ''t1'') = Some (Some 1) \<and>
   map_option task_totalCompletions (getTask (run acceptSample
       [PostAdminTasks sampleInsertTask ''t1'' 500, PutAdminTask ''t1'' setCompletions]
       emptyStore) ''t1'') = Some 5"
  by (simp add: overTrace_def submitTrace_def setCompletions_def sample_defs handler_defs)

lemma fullStore_task:
  "getTask fullStore ''t1'' = Some (sampleTask\<lparr>task_totalCompletions := 1\<rparr>)"
  by (simp add: fullStore_def sample_defs handler_defs)

theorem capacity_checked_at_submission_witness:
  "getTask fullStore (ia_taskId sampleSubmission) = Some (sampleTask\<lparr>task_totalCompletions := 1\<rparr>) \<and>
   task_maxCompletions (sampleTask\<lparr>task_totalCompletions := 1\<rparr>) = Some 1 \<and>
   task_totalCompletions (sampleTask\<lparr>task_totalCompletions := 1\<rparr>) = 1 \<and>
   fst (postApplications acceptSample sampleSubmission ''a2'' 4000 fullStore) =
     Inl (400, ''No slots available for this task'') \<and>
   snd (postApplications acceptSample sampleSubmission ''a2'' 4000 fullStore) = fullStore \<and>
   getTask createdStore ''t1'' = Some sampleTask \<and>
   getTask (step acceptSample (PostApplications sampleSubmission ''a1'' 1000) createdStore) ''t1'' =
     Some sampleTask \<and>
   freshRequest (PostApplications sampleSubmission ''a1'' 1000) createdStore \<and>
   getTask emptyStore ''t1'' = None \<and>
   getTask (step acceptSample (PostAdminTasks sampleInsertTask ''t1'' 500) emptyStore) ''t1'' =
     Some sampleTask \<and>
   task_totalCompletions sampleTask = 0"
proof -
  have a: "getTask fullStore (ia_taskId sampleSubmission) =
      Some (sampleTask\<lparr>task_totalCompletions := 1\<rparr>)"
    using fullStore_task by (simp add: sampleSubmission_def)
  have b: "task_maxCompletions (sampleTask\<lparr>task_totalCompletions := 1\<rparr>) = Some 1"
    "task_totalCompletions (sampleTask\<lparr>task_totalCompletions := 1\<rparr>) = 1"
    "task_active (sampleTask\<lparr>task_totalCompletions := 1\<rparr>)"
    by (simp_all add: sampleTask_def)
  have c: "insertApplicationSchema sampleSubmission"
    "acceptSample (ia_walletAddress sampleSubmission)"
    by (simp_all add: insertApplicationSchema_def sampleSubmission_def sampleWallet_def
        acceptSample_def)
  have d: "getTask createdStore ''t1'' = Some sampleTask"
    by (rule createdStore_task)
  have e: "getTask (step acceptSample (PostApplications sampleSubmission ''a1'' 1000)
      createdStore) ''t1'' = Some sampleTask"
    by (simp add: createdStore_def sample_defs handler_defs)
  have f: "freshRequest (PostApplications sampleSubmission ''a1'' 1000) createdStore"
    by (simp add: createdStore_def sample_defs handler_defs)
  have g: "getTask emptyStore ''t1'' = None"
    by (simp add: getTask_def emptyStore_def)
  have h: "getTask (step acceptSample (PostAdminTasks sampleInsertTask ''t1'' 500) emptyStore)
      ''t1'' = Some sampleTask"
    by (simp add: sample_defs handler_defs)
  from capacity_checked_at_submission [of fullStore sampleSubmission
      "sampleTask\<lparr>task_totalCompletions := 1\<rparr>" 1 acceptSample "''a2''" 4000 None
      createdStore "''t1''" sampleTask "PostApplications sampleSubmission ''a1'' 1000" sampleTask]
    capacity_checked_at_submission [of fullStore sampleSubmission
      "sampleTask\<lparr>task_totalCompletions := 1\<rparr>" 1 acceptSample "''a2''" 4000 None
      emptyStore "''t1''" sampleTask "PostAdminTasks sampleInsertTask ''t1'' 500" sampleTask]
    a b c d e f g h
  show ?thesis by simp
qed

section \<open>Statistics, payments and approved applications\<close>






























end
